theory Spec2Isabelle
  imports Main "HOL-Library.Word"
begin

section \<open>Lease-backed monitors: a model of \<open>backend/monitor/monitors.go\<close>\<close>

text \<open>
  The Go package keeps one leased key per monitored name in etcd. \<open>RefreshMonitor\<close>
  either renews the lease of an existing key or grants a new lease, writes the key and
  starts a goroutine that watches the key. The model below follows the source function
  by function. The etcd client is the only shared state; its calls are functions on an
  explicit \<open>world\<close> that also records every call made, in order.
\<close>

subsection \<open>Values and errors\<close>

type_synonym int64 = "64 word"

type_synonym LeaseID = int64

text \<open>A \<open>context.Context\<close> is identified by a token; only its identity matters here.\<close>

type_synonym Context = nat

text \<open>The two sentinel errors of \<open>strconv\<close>.\<close>

datatype strconv_err = ErrSyntax | ErrRange

text \<open>
  A Go \<open>error\<close>: either the \<open>*strconv.NumError\<close> (function name, input, cause) that
  \<open>ParseInt\<close> builds, or any other error value (an RPC failure, a handler failure),
  identified by its message.
\<close>

datatype error = NumError string string strconv_err | OtherError string

subsection \<open>\<open>strconv.ParseInt(s, 10, 64)\<close> and \<open>fmt.Sprintf("%d", ttl)\<close>\<close>

text \<open>
  The digit value of a byte, as the \<open>switch\<close> in \<open>strconv.ParseUint\<close> computes it:
  \<open>'0'..'9'\<close>, then \<open>'a'..'z'\<close> and \<open>'A'..'Z'\<close> from 10 on; any other byte is a
  syntax error.
\<close>

definition digit_value :: "char \<Rightarrow> nat option" where
  "digit_value d =
     (let c = (of_char d :: nat) in
      if 48 \<le> c \<and> c \<le> 57 then Some (c - 48)
      else if 97 \<le> c \<and> c \<le> 122 then Some (c - 97 + 10)
      else if 65 \<le> c \<and> c \<le> 90 then Some (c - 65 + 10)
      else None)"

definition maxUint64 :: nat where
  "maxUint64 = 2 ^ 64 - 1"

text \<open>
  The digit loop of \<open>ParseUint\<close> for base 10 and bit size 64. The accumulator is a
  \<open>uint64\<close>, held as a natural number below \<open>2 ^ 64\<close>: the loop refuses to multiply
  once \<open>n\<close> has reached the cutoff \<open>maxUint64 / 10 + 1\<close>, and the addition of the digit
  wraps modulo \<open>2 ^ 64\<close>, which the test \<open>n1 < n\<close> detects.
\<close>

fun ParseUint_loop :: "string \<Rightarrow> nat \<Rightarrow> strconv_err + nat" where
  "ParseUint_loop [] n = Inr n"
| "ParseUint_loop (d # s) n =
     (case digit_value d of
        None \<Rightarrow> Inl ErrSyntax
      | Some v \<Rightarrow>
          if v \<ge> 10 then Inl ErrSyntax
          else if n \<ge> maxUint64 div 10 + 1 then Inl ErrRange
          else
            let n10 = n * 10; n1 = (n10 + v) mod 2 ^ 64 in
            if n1 < n10 \<or> n1 > maxUint64 then Inl ErrRange
            else ParseUint_loop s n1)"

definition ParseUint :: "string \<Rightarrow> strconv_err + nat" where
  "ParseUint s = (if length s < 1 then Inl ErrSyntax else ParseUint_loop s 0)"

text \<open>
  \<open>ParseInt\<close>: the empty string is a syntax error; one leading sign is picked off; the
  rest is parsed unsigned; the magnitude is checked against \<open>2 ^ 63\<close> (the cutoff for
  64 bits), which also catches the value \<open>ParseUint\<close> reports with a range error.
\<close>

definition ParseInt :: "string \<Rightarrow> error + int64" where
  "ParseInt s0 =
     (if s0 = [] then Inl (NumError ''ParseInt'' s0 ErrSyntax)
      else
        let neg = (hd s0 = CHR ''-'');
            s = (if hd s0 = CHR ''+'' \<or> hd s0 = CHR ''-'' then tl s0 else s0)
        in case ParseUint s of
             Inl ErrSyntax \<Rightarrow> Inl (NumError ''ParseInt'' s0 ErrSyntax)
           | Inl ErrRange \<Rightarrow> Inl (NumError ''ParseInt'' s0 ErrRange)
           | Inr un \<Rightarrow>
               if \<not> neg \<and> un \<ge> 2 ^ 63 then Inl (NumError ''ParseInt'' s0 ErrRange)
               else if neg \<and> un > 2 ^ 63 then Inl (NumError ''ParseInt'' s0 ErrRange)
               else Inr (if neg then - (word_of_nat un) else word_of_nat un))"

definition digit_char :: "nat \<Rightarrow> char" where
  "digit_char u = ''0123456789'' ! u"

text \<open>
  The decimal digits of an unsigned value, most significant first, as the base-10 loop
  of \<open>fmt\<close> writes them. The argument of \<open>digit_char\<close> is always below 10.
\<close>

fun fmtInteger :: "nat \<Rightarrow> string" where
  "fmtInteger u =
     (if u \<ge> 10 then fmtInteger (u div 10) @ [digit_char (u mod 10)]
      else [digit_char u])"

declare fmtInteger.simps [simp del]

text \<open>
  \<open>fmt.Sprintf("%d", a)\<close> for an \<open>int64\<close>: the value is taken as \<open>uint64\<close>, negated
  (with wrap-around) when the signed value is negative, and a minus sign is put in front.
\<close>

definition Sprintf_d :: "int64 \<Rightarrow> string" where
  "Sprintf_d a =
     (if sint a < 0 then CHR ''-'' # fmtInteger (unat (- a)) else fmtInteger (unat a))"

subsection \<open>The key builder\<close>

definition monitorPathPrefix :: string where
  "monitorPathPrefix = ''monitors''"

text \<open>
  Modelled from the spec: \<open>store.NewKeyBuilder(monitorPathPrefix).Build(name)\<close>, whose
  source is in package \<open>backend/store\<close> and not among the files at hand. The
  specification gives the key as the fixed namespace, the separator \<open>/\<close> and the name,
  by plain concatenation.
\<close>

definition Build :: "string \<Rightarrow> string" where
  "Build name = monitorPathPrefix @ ''/'' @ name"

subsection \<open>The etcd client\<close>

text \<open>
  Every call the client can be asked to make. \<open>RpcRevoke\<close> and \<open>RpcDelete\<close> are
  operations of the client that the monitor service could issue but never does.
\<close>

datatype rpc =
    RpcGet Context string
  | RpcKeepAliveOnce Context LeaseID
  | RpcGrant Context int64
  | RpcPut Context string string LeaseID
  | RpcWatch Context string
  | RpcRevoke Context LeaseID
  | RpcDelete Context string

record KeyValue =
  kv_Key :: string
  kv_Value :: string
  kv_Lease :: int64

text \<open>
  What the store answers during one call of \<open>RefreshMonitor\<close>: whether each RPC fails,
  and which lease identifier a successful grant returns. The service issues each RPC at
  most once per call, so one outcome per RPC describes every behaviour of the store.
\<close>

record rpc_outcomes =
  get_err :: "error option"
  keepalive_err :: "error option"
  grant_res :: "error + LeaseID"
  put_err :: "error option"

text \<open>What the handlers and the logger are asked to do, in order.\<close>

datatype ('e, 'v) effect =
    LogInfo string
  | HandleFailure 'e 'v
  | HandleError error

type_synonym ('e, 'v) callback = "('e, 'v) effect list \<Rightarrow> ('e, 'v) effect list"

text \<open>
  The goroutine of \<open>watchMon\<close> is \<open>Active\<close> while it ranges over the watch channel.
  It has returned after the failure handler (\<open>Failed\<close>), after the shutdown handler
  (\<open>Superseded\<close>), or because the channel was closed (\<open>Stopped\<close>).
\<close>

datatype task_state = Active | Failed | Superseded | Stopped

record ('e, 'v) watcher =
  w_ctx :: Context
  w_key :: string
  w_failure :: "('e, 'v) callback"
  w_shutdown :: "('e, 'v) callback"
  w_state :: task_state

record ('e, 'v) world =
  kvs :: "string \<rightharpoonup> string \<times> LeaseID"
  rpcs :: "rpc list"
  watchers :: "('e, 'v) watcher list"

definition client_Get ::
  "rpc_outcomes \<Rightarrow> Context \<Rightarrow> string \<Rightarrow> ('e, 'v) world
     \<Rightarrow> (error + KeyValue list) \<times> ('e, 'v) world" where
  "client_Get env ctx k w =
     (let w' = w\<lparr>rpcs := rpcs w @ [RpcGet ctx k]\<rparr> in
      case get_err env of
        Some err \<Rightarrow> (Inl err, w')
      | None \<Rightarrow>
          (Inr (case kvs w k of
                  None \<Rightarrow> []
                | Some (v, l) \<Rightarrow> [\<lparr>kv_Key = k, kv_Value = v, kv_Lease = l\<rparr>]), w'))"

definition client_KeepAliveOnce ::
  "rpc_outcomes \<Rightarrow> Context \<Rightarrow> LeaseID \<Rightarrow> ('e, 'v) world
     \<Rightarrow> error option \<times> ('e, 'v) world" where
  "client_KeepAliveOnce env ctx l w =
     (keepalive_err env, w\<lparr>rpcs := rpcs w @ [RpcKeepAliveOnce ctx l]\<rparr>)"

definition client_Grant ::
  "rpc_outcomes \<Rightarrow> Context \<Rightarrow> int64 \<Rightarrow> ('e, 'v) world
     \<Rightarrow> (error + LeaseID) \<times> ('e, 'v) world" where
  "client_Grant env ctx t w = (grant_res env, w\<lparr>rpcs := rpcs w @ [RpcGrant ctx t]\<rparr>)"

definition client_Put ::
  "rpc_outcomes \<Rightarrow> Context \<Rightarrow> string \<Rightarrow> string \<Rightarrow> LeaseID \<Rightarrow> ('e, 'v) world
     \<Rightarrow> error option \<times> ('e, 'v) world" where
  "client_Put env ctx k v l w =
     (let w' = w\<lparr>rpcs := rpcs w @ [RpcPut ctx k v l]\<rparr> in
      case put_err env of
        Some err \<Rightarrow> (Some err, w')
      | None \<Rightarrow> (None, w'\<lparr>kvs := (kvs w')(k \<mapsto> (v, l))\<rparr>))"

subsection \<open>The monitor service\<close>

text \<open>
  \<open>EtcdService\<close>: the failure handler answers \<open>nil\<close> or an error for an entity and
  an event. The error handler returns nothing, so a call of it is only recorded (as the
  effect \<open>HandleError\<close>). The client is the \<open>world\<close>, passed explicitly.
\<close>

record ('e, 'v) EtcdService =
  failureHandler :: "'e \<Rightarrow> 'v \<Rightarrow> error option"

record monitor =
  mon_key :: string
  mon_leaseID :: LeaseID
  mon_ttl :: int64

text \<open>\<open>getMonitor\<close>: \<open>Inr None\<close> is the pair \<open>(nil, nil)\<close> of the source.\<close>

definition getMonitor ::
  "rpc_outcomes \<Rightarrow> Context \<Rightarrow> string \<Rightarrow> ('e, 'v) world
     \<Rightarrow> (error + monitor option) \<times> ('e, 'v) world" where
  "getMonitor env ctx k w =
     (case client_Get env ctx k w of
        (Inl err, w') \<Rightarrow> (Inl err, w')
      | (Inr Kvs, w') \<Rightarrow>
          if length Kvs > 0 then
            (let kv = hd Kvs; leaseID = kv_Lease kv in
             case ParseInt (kv_Value kv) of
               Inl err \<Rightarrow> (Inl err, w')
             | Inr t \<Rightarrow> (Inr (Some \<lparr>mon_key = kv_Key kv, mon_leaseID = leaseID, mon_ttl = t\<rparr>), w'))
          else (Inr None, w'))"

text \<open>
  The closure \<open>failureFunc\<close> of \<open>RefreshMonitor\<close>, over the service, the key, the entity
  and the event. It has no result: an error of the failure handler goes to the error
  handler and nowhere else.
\<close>

definition failureFunc ::
  "('e, 'v) EtcdService \<Rightarrow> string \<Rightarrow> 'e \<Rightarrow> 'v \<Rightarrow> ('e, 'v) callback" where
  "failureFunc m k entity event log =
     (let log1 = log @ [LogInfo (''monitor timed out, for '' @ k @ '', handling failure'')];
          err = failureHandler m entity event;
          log2 = log1 @ [HandleFailure entity event]
      in case err of
           Some e \<Rightarrow> log2 @ [HandleError e]
         | None \<Rightarrow> log2)"

text \<open>
  The closure \<open>shutdownFunc\<close>. The source calls \<open>logger.Info\<close>, not \<open>Infof\<close>, so the
  two string operands are printed one after the other and the verb stays as it is.
\<close>

definition shutdownFunc :: "string \<Rightarrow> ('e, 'v) callback" where
  "shutdownFunc k log = log @ [LogInfo (''shutting down monitor for %s'' @ k)]"

subsection \<open>The watcher\<close>

datatype EventType = PUT | DELETE

record WatchEvent =
  ev_Type :: EventType
  ev_Key :: string

record WatchResponse =
  Events :: "WatchEvent list"

text \<open>
  The inner loop of the goroutine, over the events of one response. The state returned
  is \<open>Active\<close> when the loop ran to its end without a \<open>return\<close>.
\<close>

fun events_loop ::
  "WatchEvent list \<Rightarrow> ('e, 'v) callback \<Rightarrow> ('e, 'v) callback \<Rightarrow> ('e, 'v) effect list
     \<Rightarrow> task_state \<times> ('e, 'v) effect list" where
  "events_loop [] fh sh log = (Active, log)"
| "events_loop (ev # evs) fh sh log =
     (if ev_Type ev = DELETE then (Failed, fh log)
      else if ev_Type ev = PUT then (Superseded, sh log)
      else events_loop evs fh sh log)"

text \<open>What the watch channel hands to the goroutine: a response, or its closing.\<close>

datatype chan_msg = Recv WatchResponse | Closed

text \<open>
  One iteration of \<open>for wresp := range responseChan\<close>. A goroutine that has returned
  receives nothing any more.
\<close>

definition task_step ::
  "chan_msg \<Rightarrow> ('e, 'v) watcher \<times> ('e, 'v) effect list
     \<Rightarrow> ('e, 'v) watcher \<times> ('e, 'v) effect list" where
  "task_step msg tlog =
     (case tlog of (t, log) \<Rightarrow>
        if w_state t \<noteq> Active then (t, log)
        else case msg of
               Closed \<Rightarrow> (t\<lparr>w_state := Stopped\<rparr>, log)
             | Recv wresp \<Rightarrow>
                 (case events_loop (Events wresp) (w_failure t) (w_shutdown t) log of
                    (st, log') \<Rightarrow> (t\<lparr>w_state := st\<rparr>, log')))"

fun task_run ::
  "chan_msg list \<Rightarrow> ('e, 'v) watcher \<times> ('e, 'v) effect list
     \<Rightarrow> ('e, 'v) watcher \<times> ('e, 'v) effect list" where
  "task_run [] tlog = tlog"
| "task_run (msg # msgs) tlog = task_run msgs (task_step msg tlog)"

text \<open>
  \<open>watchMon\<close>: the watch is opened with the context it is given, and the goroutine is
  started on the channel.
\<close>

definition watchMon ::
  "Context \<Rightarrow> string \<Rightarrow> ('e, 'v) callback \<Rightarrow> ('e, 'v) callback \<Rightarrow> ('e, 'v) world
     \<Rightarrow> ('e, 'v) world" where
  "watchMon ctx k fh sh w =
     w\<lparr>rpcs := rpcs w @ [RpcWatch ctx k],
       watchers := watchers w @
         [\<lparr>w_ctx = ctx, w_key = k, w_failure = fh, w_shutdown = sh, w_state = Active\<rparr>]\<rparr>"

text \<open>
  Cancelling a context closes the watch channels that were opened with it, as the etcd
  client documents for \<open>Watch\<close>.
\<close>

definition cancel :: "Context \<Rightarrow> ('e, 'v) world \<Rightarrow> ('e, 'v) world" where
  "cancel ctx w =
     w\<lparr>watchers := map (\<lambda>t. if w_ctx t = ctx then fst (task_step Closed (t, [])) else t)
                        (watchers w)\<rparr>"

subsection \<open>\<open>RefreshMonitor\<close>\<close>

definition RefreshMonitor ::
  "('e, 'v) EtcdService \<Rightarrow> rpc_outcomes \<Rightarrow> Context \<Rightarrow> string \<Rightarrow> 'e \<Rightarrow> 'v \<Rightarrow> int64
     \<Rightarrow> ('e, 'v) world \<Rightarrow> error option \<times> ('e, 'v) world" where
  "RefreshMonitor m env ctx name entity event t w =
     (let k = Build name in
      case getMonitor env ctx k w of
        (Inl err, w1) \<Rightarrow> (Some err, w1)
      | (Inr mon, w1) \<Rightarrow>
          if mon \<noteq> None \<and> mon_ttl (the mon) = t then
            client_KeepAliveOnce env ctx (mon_leaseID (the mon)) w1
          else
            (case client_Grant env ctx t w1 of
               (Inl err, w2) \<Rightarrow> (Some err, w2)
             | (Inr lease, w2) \<Rightarrow>
                 (let mon' = \<lparr>mon_key = k, mon_leaseID = lease, mon_ttl = t\<rparr> in
                  case client_Put env ctx k (Sprintf_d (mon_ttl mon')) lease w2 of
                    (Some err, w3) \<Rightarrow> (Some err, w3)
                  | (None, w3) \<Rightarrow>
                      (None, watchMon ctx (mon_key mon') (failureFunc m k entity event)
                               (shutdownFunc k) w3))))"

subsection \<open>Vocabulary for the properties\<close>

text \<open>
  The read finds nothing to renew for the requested TTL \<open>t\<close>: the store holds no key
  \<open>k\<close>, or it holds one whose value parses to another TTL.
\<close>

definition must_create :: "('e, 'v) world \<Rightarrow> string \<Rightarrow> int64 \<Rightarrow> bool" where
  "must_create w k t =
     (case kvs w k of
        None \<Rightarrow> True
      | Some (v, l) \<Rightarrow> (case ParseInt v of Inl err \<Rightarrow> False | Inr t' \<Rightarrow> t' \<noteq> t))"

text \<open>The key an RPC names, if it names one.\<close>

fun rpc_key :: "rpc \<Rightarrow> string option" where
  "rpc_key (RpcGet ctx k) = Some k"
| "rpc_key (RpcPut ctx k v l) = Some k"
| "rpc_key (RpcWatch ctx k) = Some k"
| "rpc_key (RpcDelete ctx k) = Some k"
| "rpc_key (RpcKeepAliveOnce ctx l) = None"
| "rpc_key (RpcGrant ctx t) = None"
| "rpc_key (RpcRevoke ctx l) = None"

text \<open>The RPCs that take something away from the store: a lease or a key.\<close>

fun removes :: "rpc \<Rightarrow> bool" where
  "removes (RpcRevoke ctx l) = True"
| "removes (RpcDelete ctx k) = True"
| "removes r = False"

text \<open>
  All a goroutine can have done after any sequence of messages: nothing yet, stopped
  without a callback, or exactly one call of exactly one of its two callbacks.
\<close>

definition outcomes ::
  "('e, 'v) watcher \<Rightarrow> ('e, 'v) effect list
     \<Rightarrow> (('e, 'v) watcher \<times> ('e, 'v) effect list) set" where
  "outcomes t log =
     {(t, log), (t\<lparr>w_state := Stopped\<rparr>, log), (t\<lparr>w_state := Failed\<rparr>, w_failure t log),
      (t\<lparr>w_state := Superseded\<rparr>, w_shutdown t log)}"

text \<open>
  A response that carries no event: the inner loop runs over nothing and the goroutine
  goes on to the next receive.
\<close>

fun eventless :: "chan_msg \<Rightarrow> bool" where
  "eventless (Recv wresp) = (Events wresp = [])"
| "eventless Closed = False"

subsection \<open>A small scenario\<close>

text \<open>
  A store that answers every RPC and grants lease 7, and four that fail one RPC each; a
  failure handler that fails and one that does not; an empty store, a store holding
  \<open>monitors/entity1\<close> with TTL 30, and one holding a value that is no number; the
  watcher that a call for \<open>entity1\<close> under context 3 starts, and one event of each
  type.
\<close>

definition ex_ok :: rpc_outcomes where
  "ex_ok = \<lparr>get_err = None, keepalive_err = None, grant_res = Inr 7, put_err = None\<rparr>"

definition ex_no_get :: rpc_outcomes where
  "ex_no_get = ex_ok\<lparr>get_err := Some (OtherError ''unavailable'')\<rparr>"

definition ex_no_keepalive :: rpc_outcomes where
  "ex_no_keepalive = ex_ok\<lparr>keepalive_err := Some (OtherError ''lease not found'')\<rparr>"

definition ex_no_grant :: rpc_outcomes where
  "ex_no_grant = ex_ok\<lparr>grant_res := Inl (OtherError ''unavailable'')\<rparr>"

definition ex_no_put :: rpc_outcomes where
  "ex_no_put = ex_ok\<lparr>put_err := Some (OtherError ''unavailable'')\<rparr>"

definition ex_service :: "(string, string) EtcdService" where
  "ex_service = \<lparr>failureHandler = (\<lambda>entity event. Some (OtherError ''alert failed''))\<rparr>"

definition ex_quiet :: "(string, string) EtcdService" where
  "ex_quiet = \<lparr>failureHandler = (\<lambda>entity event. None)\<rparr>"

definition ex_empty :: "(string, string) world" where
  "ex_empty = \<lparr>kvs = Map.empty, rpcs = [], watchers = []\<rparr>"

definition ex_stored :: "(string, string) world" where
  "ex_stored = \<lparr>kvs = [''monitors/entity1'' \<mapsto> (''30'', 7)], rpcs = [], watchers = []\<rparr>"

definition ex_malformed :: "(string, string) world" where
  "ex_malformed = \<lparr>kvs = [''monitors/entity1'' \<mapsto> (''3x'', 7)], rpcs = [], watchers = []\<rparr>"

definition ex_task :: "(string, string) watcher" where
  "ex_task =
     \<lparr>w_ctx = 3, w_key = ''monitors/entity1'',
      w_failure = failureFunc ex_service ''monitors/entity1'' ''e'' ''ev'',
      w_shutdown = shutdownFunc ''monitors/entity1'', w_state = Active\<rparr>"

definition ex_delete :: WatchEvent where
  "ex_delete = \<lparr>ev_Type = DELETE, ev_Key = ''monitors/entity1''\<rparr>"

definition ex_put :: WatchEvent where
  "ex_put = \<lparr>ev_Type = PUT, ev_Key = ''monitors/entity1''\<rparr>"

section \<open>Properties\<close>

subsection \<open>Decimal encoding and parsing\<close>

lemma lt10_cases:
  "d < (10::nat) \<Longrightarrow>
     d = 0 \<or> d = 1 \<or> d = 2 \<or> d = 3 \<or> d = 4 \<or> d = 5 \<or> d = 6 \<or> d = 7 \<or> d = 8 \<or> d = 9"
  by arith

lemma digit_value_digit_char: "d < 10 \<Longrightarrow> digit_value (digit_char d) = Some d"
  by (drule lt10_cases) (auto simp: digit_value_def digit_char_def)

lemma digit_char_not_sign:
  "d < 10 \<Longrightarrow> digit_char d \<noteq> CHR ''+'' \<and> digit_char d \<noteq> CHR ''-''"
  by (drule lt10_cases) (auto simp: digit_char_def)

lemma ParseUint_loop_append:
  "ParseUint_loop (s @ s') n =
     (case ParseUint_loop s n of Inl e \<Rightarrow> Inl e | Inr n' \<Rightarrow> ParseUint_loop s' n')"
  by (induction s arbitrary: n) (auto split: option.splits simp: Let_def)

lemma ParseUint_loop_digit:
  assumes "d < 10" and "n * 10 + d < 2 ^ 64"
  shows "ParseUint_loop [digit_char d] n = Inr (n * 10 + d)"
proof -
  have "n < maxUint64 div 10 + 1"
    using assms by (simp add: maxUint64_def)
  moreover have "(n * 10 + d) mod 2 ^ 64 = n * 10 + d"
    using assms by simp
  moreover have "n * 10 + d \<le> maxUint64"
    using assms by (simp add: maxUint64_def)
  ultimately show ?thesis
    using assms by (simp add: digit_value_digit_char Let_def)
qed

lemma ParseUint_loop_fmtInteger:
  "u < 2 ^ 64 \<Longrightarrow> ParseUint_loop (fmtInteger u) 0 = Inr u"
proof (induction u rule: fmtInteger.induct)
  case (1 u)
  show ?case
  proof (cases "u \<ge> 10")
    case True
    have "u div 10 < 2 ^ 64"
      using "1.prems" by simp
    with "1.IH" True have front: "ParseUint_loop (fmtInteger (u div 10)) 0 = Inr (u div 10)"
      by simp
    have d: "u mod 10 < 10"
      by simp
    have "u div 10 * 10 + u mod 10 = u"
      by simp
    with ParseUint_loop_digit [OF d, of "u div 10"] "1.prems"
    have "ParseUint_loop [digit_char (u mod 10)] (u div 10) = Inr u"
      by simp
    with front True show ?thesis
      by (subst fmtInteger.simps) (simp add: ParseUint_loop_append)
  next
    case False
    then have "u < 10"
      by simp
    with ParseUint_loop_digit [of u 0] "1.prems" False show ?thesis
      by (subst fmtInteger.simps) simp
  qed
qed

lemma fmtInteger_hd:
  "fmtInteger u \<noteq> [] \<and> (\<exists>d<10. hd (fmtInteger u) = digit_char d)"
proof (induction u rule: fmtInteger.induct)
  case (1 u)
  show ?case
  proof (cases "u \<ge> 10")
    case True
    with "1.IH" show ?thesis
      by (subst (1 2) fmtInteger.simps) auto
  next
    case False
    then have "u < 10"
      by simp
    then have "\<exists>d<10. digit_char u = digit_char d"
      by blast
    with False show ?thesis
      by (subst (1 2) fmtInteger.simps) simp
  qed
qed

text \<open>The signed reading of a 64-bit word, from its unsigned one.\<close>

lemma sint64_uint:
  "sint (a :: int64) = (if uint a < 2 ^ 63 then uint a else uint a - 2 ^ 64)"
proof -
  have lo: "0 \<le> uint a" and hi: "uint a < 2 ^ 64"
    using uint_lt2p [of a] by simp_all
  have "sint a = (uint a + 2 ^ 63) mod 2 ^ 64 - 2 ^ 63"
    by (simp add: sint_uint signed_take_bit_eq_take_bit_shift take_bit_eq_mod)
  moreover have "uint a < 2 ^ 63 \<Longrightarrow> (uint a + 2 ^ 63) mod 2 ^ 64 = uint a + 2 ^ 63"
    using lo by simp
  moreover have "\<not> uint a < 2 ^ 63 \<Longrightarrow> (uint a + 2 ^ 63) mod 2 ^ 64 = uint a + 2 ^ 63 - 2 ^ 64"
    using lo hi by (simp add: mod_pos_geq)
  ultimately show ?thesis
    by simp
qed

lemma sint_nonneg_unat: "0 \<le> sint (a :: int64) \<Longrightarrow> unat a < 2 ^ 63"
proof -
  assume nonneg: "0 \<le> sint a"
  have "uint a < 2 ^ 64"
    using uint_lt2p [of a] by simp
  with nonneg have "uint a < 2 ^ 63"
    by (simp add: sint64_uint split: if_splits)
  then show ?thesis
    by (simp add: unat_eq_nat_uint del: nat_uint_eq)
qed

lemma sint_neg_unat: "sint (a :: int64) < 0 \<Longrightarrow> unat (- a) \<le> 2 ^ 63"
proof -
  assume neg: "sint a < 0"
  have hi: "uint a < 2 ^ 64"
    using uint_lt2p [of a] by simp
  have lo: "0 \<le> uint a"
    by simp
  from neg lo have big: "2 ^ 63 \<le> uint a"
    by (simp add: sint64_uint split: if_splits)
  have "uint (- a) = (- uint a) mod 2 ^ 64"
    by (simp add: uint_word_ariths)
  also have "\<dots> = 2 ^ 64 - uint a"
    using hi big by (simp add: zmod_zminus1_eq_if)
  finally have "uint (- a) \<le> 2 ^ 63"
    using big by simp
  then show ?thesis
    by (simp add: unat_eq_nat_uint del: nat_uint_eq)
qed

lemma ParseInt_Sprintf_d: "ParseInt (Sprintf_d a) = Inr a"
proof (cases "sint a < 0")
  case True
  have small: "unat (- a) \<le> 2 ^ 63"
    using True by (rule sint_neg_unat)
  then have "unat (- a) < 2 ^ 64"
    by simp
  then have "ParseUint_loop (fmtInteger (unat (- a))) 0 = Inr (unat (- a))"
    by (rule ParseUint_loop_fmtInteger)
  moreover have "fmtInteger (unat (- a)) \<noteq> []"
    using fmtInteger_hd by blast
  ultimately show ?thesis
    using True small by (simp add: ParseInt_def Sprintf_d_def ParseUint_def)
next
  case False
  then have "0 \<le> sint a"
    by simp
  then have small: "unat a < 2 ^ 63"
    by (rule sint_nonneg_unat)
  then have "unat a < 2 ^ 64"
    by simp
  then have parsed: "ParseUint_loop (fmtInteger (unat a)) 0 = Inr (unat a)"
    by (rule ParseUint_loop_fmtInteger)
  obtain d where d: "d < 10" "hd (fmtInteger (unat a)) = digit_char d"
    and ne: "fmtInteger (unat a) \<noteq> []"
    using fmtInteger_hd [of "unat a"] by blast
  from d digit_char_not_sign [of d]
  have "hd (fmtInteger (unat a)) \<noteq> CHR ''+''" "hd (fmtInteger (unat a)) \<noteq> CHR ''-''"
    by simp_all
  with parsed ne small False show ?thesis
    by (simp add: ParseInt_def Sprintf_d_def ParseUint_def)
qed

subsection \<open>The read step\<close>

lemma getMonitor_rpc_error:
  "get_err env = Some err \<Longrightarrow>
     getMonitor env ctx k w = (Inl err, w\<lparr>rpcs := rpcs w @ [RpcGet ctx k]\<rparr>)"
  by (simp add: getMonitor_def client_Get_def)

lemma getMonitor_absent:
  "get_err env = None \<Longrightarrow> kvs w k = None \<Longrightarrow>
     getMonitor env ctx k w = (Inr None, w\<lparr>rpcs := rpcs w @ [RpcGet ctx k]\<rparr>)"
  by (simp add: getMonitor_def client_Get_def)

lemma getMonitor_malformed:
  "get_err env = None \<Longrightarrow> kvs w k = Some (v, l) \<Longrightarrow> ParseInt v = Inl err \<Longrightarrow>
     getMonitor env ctx k w = (Inl err, w\<lparr>rpcs := rpcs w @ [RpcGet ctx k]\<rparr>)"
  by (simp add: getMonitor_def client_Get_def)

lemma getMonitor_present:
  "get_err env = None \<Longrightarrow> kvs w k = Some (v, l) \<Longrightarrow> ParseInt v = Inr t \<Longrightarrow>
     getMonitor env ctx k w =
       (Inr (Some \<lparr>mon_key = k, mon_leaseID = l, mon_ttl = t\<rparr>),
        w\<lparr>rpcs := rpcs w @ [RpcGet ctx k]\<rparr>)"
  by (simp add: getMonitor_def client_Get_def)

subsection \<open>The paths of \<open>RefreshMonitor\<close>\<close>

lemma refresh_get_fails:
  "get_err env = Some err \<Longrightarrow>
     RefreshMonitor m env ctx name entity event t w =
       (Some err, w\<lparr>rpcs := rpcs w @ [RpcGet ctx (Build name)]\<rparr>)"
  by (simp add: RefreshMonitor_def getMonitor_rpc_error)

lemma refresh_malformed:
  "get_err env = None \<Longrightarrow> kvs w (Build name) = Some (v, l) \<Longrightarrow> ParseInt v = Inl err \<Longrightarrow>
     RefreshMonitor m env ctx name entity event t w =
       (Some err, w\<lparr>rpcs := rpcs w @ [RpcGet ctx (Build name)]\<rparr>)"
  by (simp add: RefreshMonitor_def getMonitor_malformed)

lemma refresh_renew:
  "get_err env = None \<Longrightarrow> kvs w (Build name) = Some (v, l) \<Longrightarrow> ParseInt v = Inr t \<Longrightarrow>
     RefreshMonitor m env ctx name entity event t w =
       (keepalive_err env,
        w\<lparr>rpcs := rpcs w @ [RpcGet ctx (Build name), RpcKeepAliveOnce ctx l]\<rparr>)"
  by (simp add: RefreshMonitor_def getMonitor_present client_KeepAliveOnce_def)

lemma read_before_create:
  assumes "get_err env = None" and "must_create w k t"
  shows "\<exists>mon. getMonitor env ctx k w = (Inr mon, w\<lparr>rpcs := rpcs w @ [RpcGet ctx k]\<rparr>) \<and>
               \<not> (mon \<noteq> None \<and> mon_ttl (the mon) = t)"
proof (cases "kvs w k")
  case None
  with assms show ?thesis
    by (simp add: getMonitor_absent)
next
  case (Some p)
  obtain v l where p: "p = (v, l)"
    by (cases p)
  with Some assms obtain t' where t': "ParseInt v = Inr t'" "t' \<noteq> t"
    by (auto simp: must_create_def split: sum.splits)
  with Some p assms show ?thesis
    by (simp add: getMonitor_present)
qed

lemma refresh_grant_fails:
  assumes "get_err env = None" and "must_create w (Build name) t"
    and "grant_res env = Inl err"
  shows "RefreshMonitor m env ctx name entity event t w =
       (Some err, w\<lparr>rpcs := rpcs w @ [RpcGet ctx (Build name), RpcGrant ctx t]\<rparr>)"
proof -
  obtain mon where
    "getMonitor env ctx (Build name) w =
       (Inr mon, w\<lparr>rpcs := rpcs w @ [RpcGet ctx (Build name)]\<rparr>)"
    "\<not> (mon \<noteq> None \<and> mon_ttl (the mon) = t)"
    using read_before_create [OF assms(1,2)] by blast
  with assms(3) show ?thesis
    by (auto simp add: RefreshMonitor_def client_Grant_def Let_def)
qed

lemma refresh_put_fails:
  assumes "get_err env = None" and "must_create w (Build name) t"
    and "grant_res env = Inr lease" and "put_err env = Some err"
  shows "RefreshMonitor m env ctx name entity event t w =
       (Some err,
        w\<lparr>rpcs := rpcs w @
          [RpcGet ctx (Build name), RpcGrant ctx t,
           RpcPut ctx (Build name) (Sprintf_d t) lease]\<rparr>)"
proof -
  obtain mon where
    "getMonitor env ctx (Build name) w =
       (Inr mon, w\<lparr>rpcs := rpcs w @ [RpcGet ctx (Build name)]\<rparr>)"
    "\<not> (mon \<noteq> None \<and> mon_ttl (the mon) = t)"
    using read_before_create [OF assms(1,2)] by blast
  with assms(3,4) show ?thesis
    by (auto simp add: RefreshMonitor_def client_Grant_def client_Put_def Let_def)
qed

lemma refresh_create:
  assumes "get_err env = None" and "must_create w (Build name) t"
    and "grant_res env = Inr lease" and "put_err env = None"
  shows "RefreshMonitor m env ctx name entity event t w =
       (None,
        w\<lparr>kvs := (kvs w)(Build name \<mapsto> (Sprintf_d t, lease)),
          rpcs := rpcs w @
            [RpcGet ctx (Build name), RpcGrant ctx t,
             RpcPut ctx (Build name) (Sprintf_d t) lease, RpcWatch ctx (Build name)],
          watchers := watchers w @
            [\<lparr>w_ctx = ctx, w_key = Build name,
              w_failure = failureFunc m (Build name) entity event,
              w_shutdown = shutdownFunc (Build name), w_state = Active\<rparr>]\<rparr>)"
proof -
  obtain mon where
    "getMonitor env ctx (Build name) w =
       (Inr mon, w\<lparr>rpcs := rpcs w @ [RpcGet ctx (Build name)]\<rparr>)"
    "\<not> (mon \<noteq> None \<and> mon_ttl (the mon) = t)"
    using read_before_create [OF assms(1,2)] by blast
  with assms(3,4) show ?thesis
    by (auto simp add: RefreshMonitor_def client_Grant_def client_Put_def watchMon_def Let_def)
qed

text \<open>Every call takes exactly one of six paths.\<close>

lemma refresh_cases [case_names get_fails malformed renew grant_fails put_fails create]:
  obtains
    (get_fails) err where "get_err env = Some err"
  | (malformed) v l err where "get_err env = None" "kvs w k = Some (v, l)" "ParseInt v = Inl err"
  | (renew) v l where "get_err env = None" "kvs w k = Some (v, l)" "ParseInt v = Inr t"
  | (grant_fails) err where "get_err env = None" "must_create w k t" "grant_res env = Inl err"
  | (put_fails) lease err where "get_err env = None" "must_create w k t"
      "grant_res env = Inr lease" "put_err env = Some err"
  | (create) lease where "get_err env = None" "must_create w k t"
      "grant_res env = Inr lease" "put_err env = None"
proof (cases "get_err env")
  case (Some err)
  then show ?thesis
    by (rule get_fails)
next
  case None
  note read_ok = this
  show ?thesis
  proof (cases "must_create w k t")
    case True
    show ?thesis
    proof (cases "grant_res env")
      case (Inl err)
      with read_ok True show ?thesis
        by (rule grant_fails)
    next
      case (Inr lease)
      with read_ok True show ?thesis
        by (cases "put_err env") (auto intro: put_fails create)
    qed
  next
    case False
    then obtain v l where stored: "kvs w k = Some (v, l)"
      by (auto simp: must_create_def split: option.splits)
    show ?thesis
    proof (cases "ParseInt v")
      case (Inl err)
      with read_ok stored show ?thesis
        by (rule malformed)
    next
      case (Inr t')
      with False stored have "t' = t"
        by (simp add: must_create_def)
      with Inr read_ok stored show ?thesis
        by (auto intro: renew)
    qed
  qed
qed

lemma refresh_trace:
  "\<exists>rest. rpcs (snd (RefreshMonitor m env ctx name entity event t w)) =
            rpcs w @ RpcGet ctx (Build name) # rest \<and>
          (\<forall>r \<in> set rest. \<not> removes r \<and> (rpc_key r = None \<or> rpc_key r = Some (Build name)))"
  by (cases rule: refresh_cases [where env = env and w = w and k = "Build name" and t = t])
    (simp_all add: refresh_get_fails refresh_malformed refresh_renew refresh_grant_fails
       refresh_put_fails refresh_create)

lemma refresh_kvs_elsewhere:
  "k \<noteq> Build name \<Longrightarrow> kvs (snd (RefreshMonitor m env ctx name entity event t w)) k = kvs w k"
  by (cases rule: refresh_cases [where env = env and w = w and k = "Build name" and t = t])
    (simp_all add: refresh_get_fails refresh_malformed refresh_renew refresh_grant_fails
       refresh_put_fails refresh_create)

lemma refresh_error_frame:
  assumes "fst (RefreshMonitor m env ctx name entity event t w) = Some err"
  shows "watchers (snd (RefreshMonitor m env ctx name entity event t w)) = watchers w \<and>
         kvs (snd (RefreshMonitor m env ctx name entity event t w)) = kvs w"
  using assms
  by (cases rule: refresh_cases [where env = env and w = w and k = "Build name" and t = t])
    (simp_all add: refresh_get_fails refresh_malformed refresh_renew refresh_grant_fails
       refresh_put_fails refresh_create)

lemma refresh_error_origin:
  assumes "fst (RefreshMonitor m env ctx name entity event t w) = Some err"
  shows "get_err env = Some err \<or> keepalive_err env = Some err \<or> grant_res env = Inl err \<or>
         put_err env = Some err \<or>
         (\<exists>v l. kvs w (Build name) = Some (v, l) \<and> ParseInt v = Inl err)"
  using assms
  by (cases rule: refresh_cases [where env = env and w = w and k = "Build name" and t = t])
    (simp_all add: refresh_get_fails refresh_malformed refresh_renew refresh_grant_fails
       refresh_put_fails refresh_create)

subsection \<open>The goroutine\<close>

lemma events_loop_first:
  "events_loop (ev # evs) fh sh log =
     (if ev_Type ev = DELETE then (Failed, fh log) else (Superseded, sh log))"
  by (cases "ev_Type ev") simp_all

lemma task_step_returned: "w_state t \<noteq> Active \<Longrightarrow> task_step msg (t, log) = (t, log)"
  by (simp add: task_step_def)

lemma task_run_returned: "w_state t \<noteq> Active \<Longrightarrow> task_run msgs (t, log) = (t, log)"
  by (induction msgs) (simp_all add: task_step_returned)

lemma task_step_closed:
  "w_state t = Active \<Longrightarrow> task_step Closed (t, log) = (t\<lparr>w_state := Stopped\<rparr>, log)"
  by (simp add: task_step_def)

lemma task_step_empty:
  "w_state t = Active \<Longrightarrow> task_step (Recv \<lparr>Events = []\<rparr>) (t, log) = (t, log)"
  by (simp add: task_step_def)

lemma task_step_delete:
  "w_state t = Active \<Longrightarrow> ev_Type ev = DELETE \<Longrightarrow>
     task_step (Recv \<lparr>Events = ev # evs\<rparr>) (t, log) = (t\<lparr>w_state := Failed\<rparr>, w_failure t log)"
  by (simp add: task_step_def)

lemma task_step_put:
  "w_state t = Active \<Longrightarrow> ev_Type ev = PUT \<Longrightarrow>
     task_step (Recv \<lparr>Events = ev # evs\<rparr>) (t, log) =
       (t\<lparr>w_state := Superseded\<rparr>, w_shutdown t log)"
  by (simp add: task_step_def)

lemma task_step_outcomes:
  assumes "w_state t = Active"
  shows "task_step msg (t, log) \<in> outcomes t log"
proof (cases msg)
  case Closed
  with assms show ?thesis
    by (simp add: task_step_closed outcomes_def)
next
  case (Recv wresp)
  show ?thesis
  proof (cases "Events wresp")
    case Nil
    with Recv assms show ?thesis
      by (simp add: task_step_def outcomes_def)
  next
    case (Cons ev evs)
    with Recv assms show ?thesis
      by (simp add: task_step_def outcomes_def events_loop_first del: events_loop.simps)
  qed
qed

lemma task_run_outcomes:
  assumes "w_state t = Active"
  shows "task_run msgs (t, log) \<in> outcomes t log"
proof (induction msgs)
  case Nil
  show ?case
    by (simp add: outcomes_def)
next
  case (Cons msg msgs)
  show ?case
  proof (cases "task_step msg (t, log) = (t, log)")
    case True
    with Cons show ?thesis
      by simp
  next
    case False
    with task_step_outcomes [OF assms, of msg log]
    obtain t' log' where step: "task_step msg (t, log) = (t', log')"
      and returned: "w_state t' \<noteq> Active" and mem: "(t', log') \<in> outcomes t log"
      by (auto simp: outcomes_def)
    then show ?thesis
      by (simp add: task_run_returned)
  qed
qed

lemma task_run_append: "task_run (msgs @ later) s = task_run later (task_run msgs s)"
  by (induction msgs arbitrary: s) simp_all

text \<open>Responses without events leave an active goroutine as it is.\<close>

lemma task_step_eventless:
  "w_state t = Active \<Longrightarrow> eventless msg \<Longrightarrow> task_step msg (t, log) = (t, log)"
  by (cases msg) (simp_all add: task_step_def)

lemma task_run_eventless:
  "w_state t = Active \<Longrightarrow> list_all eventless pre \<Longrightarrow> task_run pre (t, log) = (t, log)"
  by (induction pre) (simp_all add: task_step_eventless)

lemma task_run_after_eventless:
  "w_state t = Active \<Longrightarrow> list_all eventless pre \<Longrightarrow>
     task_run (pre @ msg # msgs) (t, log) = task_run msgs (task_step msg (t, log))"
  by (simp add: task_run_append task_run_eventless)

subsection \<open>Evaluating the scenario\<close>

lemmas strconv_defs =
  ParseInt_def ParseUint_def digit_value_def maxUint64_def Sprintf_d_def fmtInteger.simps
  digit_char_def

lemma ex_parse_30: "ParseInt ''30'' = Inr 30"
  by (simp add: strconv_defs)

lemma ex_parse_3x: "ParseInt ''3x'' = Inl (NumError ''ParseInt'' ''3x'' ErrSyntax)"
  by (simp add: strconv_defs)

lemma ex_print_30: "Sprintf_d 30 = ''30''"
  by (simp add: strconv_defs)

lemma ex_print_31: "Sprintf_d 31 = ''31''"
  by (simp add: strconv_defs)

lemma ex_key: "Build ''entity1'' = ''monitors/entity1''"
  by (simp add: Build_def monitorPathPrefix_def)

lemma ex_empty_must_create: "must_create ex_empty (Build name) t"
  by (simp add: must_create_def ex_empty_def)

lemma ex_stored_must_create: "must_create ex_stored (Build ''entity1'') 31"
  by (simp add: must_create_def ex_stored_def ex_key ex_parse_30)

section \<open>The claims\<close>

text \<open>
  C1. When the store holds a record for the computed key and the TTL stored in it is the
  requested one (the read returns it), \<open>RefreshMonitor\<close> issues, after the read, exactly
  one \<open>KeepAliveOnce\<close> on the stored lease and returns what that call returns. The
  trace shows no grant, no put and no watch; the store's keys and the watchers are as
  before.
\<close>

theorem refresh_renews_lease:
  assumes "get_err env = None" and "kvs w (Build name) = Some (v, l)"
    and "ParseInt v = Inr t"
  shows "RefreshMonitor m env ctx name entity event t w =
           (keepalive_err env,
            w\<lparr>rpcs := rpcs w @ [RpcGet ctx (Build name), RpcKeepAliveOnce ctx l]\<rparr>)"
  using assms by (rule refresh_renew)

theorem refresh_renews_lease_witness:
  "RefreshMonitor ex_service ex_ok 4 ''entity1'' ''e'' ''ev'' 30 ex_stored =
     (None,
      \<lparr>kvs = [''monitors/entity1'' \<mapsto> (''30'', 7)],
       rpcs = [RpcGet 4 ''monitors/entity1'', RpcKeepAliveOnce 4 7],
       watchers = []\<rparr>)"
proof -
  have read_ok: "get_err ex_ok = None"
    by (simp add: ex_ok_def)
  have stored: "kvs ex_stored (Build ''entity1'') = Some (''30'', 7)"
    by (simp add: ex_stored_def ex_key)
  show ?thesis
    using refresh_renews_lease [OF read_ok stored ex_parse_30, of ex_service 4 "''e''" "''ev''"]
    by (simp add: ex_ok_def ex_stored_def ex_key)
qed

text \<open>
  Two calls in a row with the same TTL: the first creates the lease, the second only
  reads the key and renews that lease.
\<close>

lemma refresh_twice:
  assumes "get_err env = None" and "must_create w (Build name) t"
    and "grant_res env = Inr lease" and "put_err env = None"
    and "get_err env' = None"
    and "RefreshMonitor m env ctx name entity event t w = (r, w')"
  shows "RefreshMonitor m env' ctx' name entity' event' t w' =
           (keepalive_err env',
            w'\<lparr>rpcs := rpcs w' @ [RpcGet ctx' (Build name), RpcKeepAliveOnce ctx' lease]\<rparr>)"
proof -
  from assms(6) refresh_create [OF assms(1-4), of m ctx entity event]
  have "kvs w' (Build name) = Some (Sprintf_d t, lease)"
    by auto
  with assms(5) show ?thesis
    by (rule refresh_renew) (rule ParseInt_Sprintf_d)
qed

text \<open>
  C2. When the read succeeds and finds no record for the computed key (the read step
  answers "absent", not an error), or finds one whose stored TTL differs from the
  requested one, and the grant and the put succeed, \<open>RefreshMonitor\<close> grants a lease
  for \<open>t\<close> seconds, writes the key with the decimal string of \<open>t\<close> bound to the granted
  lease, starts one watcher for the key and returns \<open>nil\<close>.
\<close>

theorem refresh_creates_lease:
  assumes "get_err env = None" and "must_create w (Build name) t"
    and "grant_res env = Inr lease" and "put_err env = None"
  shows "RefreshMonitor m env ctx name entity event t w =
           (None,
            w\<lparr>kvs := (kvs w)(Build name \<mapsto> (Sprintf_d t, lease)),
              rpcs := rpcs w @
                [RpcGet ctx (Build name), RpcGrant ctx t,
                 RpcPut ctx (Build name) (Sprintf_d t) lease, RpcWatch ctx (Build name)],
              watchers := watchers w @
                [\<lparr>w_ctx = ctx, w_key = Build name,
                  w_failure = failureFunc m (Build name) entity event,
                  w_shutdown = shutdownFunc (Build name), w_state = Active\<rparr>]\<rparr>) \<and>
         (kvs w (Build name) = None \<longrightarrow>
            fst (getMonitor env ctx (Build name) w) = Inr None)"
  using assms by (simp add: refresh_create getMonitor_absent)

theorem refresh_creates_lease_witness:
  "RefreshMonitor ex_service ex_ok 3 ''entity1'' ''e'' ''ev'' 30 ex_empty =
     (None,
      \<lparr>kvs = [''monitors/entity1'' \<mapsto> (''30'', 7)],
       rpcs = [RpcGet 3 ''monitors/entity1'', RpcGrant 3 30,
               RpcPut 3 ''monitors/entity1'' ''30'' 7, RpcWatch 3 ''monitors/entity1''],
       watchers = [ex_task]\<rparr>) \<and>
   fst (getMonitor ex_ok 3 ''monitors/entity1'' ex_empty) = Inr None \<and>
   rpcs (snd (RefreshMonitor ex_service ex_ok 4 ''entity1'' ''e'' ''ev'' 31 ex_stored)) =
     [RpcGet 4 ''monitors/entity1'', RpcGrant 4 31,
      RpcPut 4 ''monitors/entity1'' ''31'' 7, RpcWatch 4 ''monitors/entity1'']"
proof -
  have read_ok: "get_err ex_ok = None" and granted: "grant_res ex_ok = Inr 7"
    and put_ok: "put_err ex_ok = None"
    by (simp_all add: ex_ok_def)
  have absent: "kvs ex_empty (Build ''entity1'') = None"
    by (simp add: ex_empty_def)
  show ?thesis
    using refresh_creates_lease [OF read_ok ex_empty_must_create granted put_ok,
        of ex_service 3 "''entity1''" "''e''" "''ev''" 30]
      refresh_creates_lease [OF read_ok ex_stored_must_create granted put_ok,
        of ex_service 4 "''e''" "''ev''"]
      absent
    by (simp add: ex_empty_def ex_stored_def ex_task_def ex_key ex_print_30 ex_print_31)
qed

text \<open>
  C8. The value \<open>RefreshMonitor\<close> writes is the decimal string of the TTL, and that
  string parses back to the same TTL, for every 64-bit TTL. So after a call that created
  the lease, a later read of the key yields the record with the key, the granted lease
  and the TTL that was written.
\<close>

theorem ttl_round_trip:
  "ParseInt (Sprintf_d t) = Inr t \<and>
   (get_err env = None \<and> must_create w (Build name) t \<and> grant_res env = Inr lease \<and>
    put_err env = None \<and> get_err env' = None \<longrightarrow>
      kvs (snd (RefreshMonitor m env ctx name entity event t w)) (Build name) =
        Some (Sprintf_d t, lease) \<and>
      fst (getMonitor env' ctx' (Build name)
             (snd (RefreshMonitor m env ctx name entity event t w))) =
        Inr (Some \<lparr>mon_key = Build name, mon_leaseID = lease, mon_ttl = t\<rparr>))"
  by (simp add: ParseInt_Sprintf_d refresh_create getMonitor_present)

theorem ttl_round_trip_witness:
  "ParseInt (Sprintf_d (- 9223372036854775808)) = Inr (- 9223372036854775808) \<and>
   kvs (snd (RefreshMonitor ex_service ex_ok 3 ''entity1'' ''e'' ''ev'' 30 ex_empty))
     ''monitors/entity1'' = Some (''30'', 7) \<and>
   fst (getMonitor ex_ok 4 ''monitors/entity1''
          (snd (RefreshMonitor ex_service ex_ok 3 ''entity1'' ''e'' ''ev'' 30 ex_empty))) =
     Inr (Some \<lparr>mon_key = ''monitors/entity1'', mon_leaseID = 7, mon_ttl = 30\<rparr>)"
proof -
  have ok: "get_err ex_ok = None" "grant_res ex_ok = Inr 7" "put_err ex_ok = None"
    by (simp_all add: ex_ok_def)
  show ?thesis
    using ttl_round_trip [of "- 9223372036854775808", THEN conjunct1]
      ttl_round_trip [of 30 ex_ok ex_empty "''entity1''" 7 ex_ok ex_service 3 "''e''" "''ev''" 4]
      ok ex_empty_must_create [of "''entity1''" 30]
    by (simp add: ex_key ex_print_30)
qed

text \<open>
  C3. A watcher goroutine leaves \<open>Active\<close> for exactly one terminal state and stays
  there. Whatever the channel delivers, the goroutine has then called nothing, or one of
  its two callbacks once, never both. Responses without events leave it \<open>Active\<close>.
  After any number of them, the first response that carries events decides: if its
  first event is a deletion, the failure callback is called once and the goroutine
  ends as \<open>Failed\<close>; if it is a write, the shutdown callback is called, not the
  failure callback, and the goroutine ends as \<open>Superseded\<close>; if the channel is closed
  instead, the goroutine ends as \<open>Stopped\<close> with no callback. In each case what the
  channel delivers later changes nothing: once the goroutine has returned, further
  messages leave its state and the effects as they are.
\<close>

theorem watcher_one_terminal_state:
  assumes "w_state t = Active" and "list_all eventless pre"
  shows "task_run msgs (t, log) \<in> outcomes t log \<and>
         task_run pre (t, log) = (t, log) \<and>
         (ev_Type ev = DELETE \<longrightarrow>
            task_run (pre @ Recv \<lparr>Events = ev # evs\<rparr> # msgs) (t, log) =
              (t\<lparr>w_state := Failed\<rparr>, w_failure t log)) \<and>
         (ev_Type ev = PUT \<longrightarrow>
            task_run (pre @ Recv \<lparr>Events = ev # evs\<rparr> # msgs) (t, log) =
              (t\<lparr>w_state := Superseded\<rparr>, w_shutdown t log)) \<and>
         task_run (pre @ Closed # msgs) (t, log) = (t\<lparr>w_state := Stopped\<rparr>, log) \<and>
         (w_state (fst (task_run msgs (t, log))) \<noteq> Active \<longrightarrow>
            task_run (msgs @ later) (t, log) = task_run msgs (t, log))"
proof -
  have once: "task_run msgs (t, log) \<in> outcomes t log"
    using assms(1) by (rule task_run_outcomes)
  have idle: "task_run pre (t, log) = (t, log)"
    using assms by (rule task_run_eventless)
  have deleted: "ev_Type ev = DELETE \<longrightarrow>
      task_run (pre @ Recv \<lparr>Events = ev # evs\<rparr> # msgs) (t, log) =
        (t\<lparr>w_state := Failed\<rparr>, w_failure t log)"
    using assms
    by (simp add: task_run_after_eventless task_step_delete task_run_returned)
  have written: "ev_Type ev = PUT \<longrightarrow>
      task_run (pre @ Recv \<lparr>Events = ev # evs\<rparr> # msgs) (t, log) =
        (t\<lparr>w_state := Superseded\<rparr>, w_shutdown t log)"
    using assms
    by (simp add: task_run_after_eventless task_step_put task_run_returned)
  have closed: "task_run (pre @ Closed # msgs) (t, log) = (t\<lparr>w_state := Stopped\<rparr>, log)"
    using assms
    by (simp add: task_run_after_eventless task_step_closed task_run_returned)
  have "w_state (fst (task_run msgs (t, log))) \<noteq> Active \<Longrightarrow>
          task_run later (task_run msgs (t, log)) = task_run msgs (t, log)"
    by (cases "task_run msgs (t, log)") (simp add: task_run_returned)
  then have stays: "w_state (fst (task_run msgs (t, log))) \<noteq> Active \<longrightarrow>
      task_run (msgs @ later) (t, log) = task_run msgs (t, log)"
    by (simp add: task_run_append)
  show ?thesis
    by (intro conjI once idle deleted written closed stays)
qed

theorem watcher_one_terminal_state_witness:
  "task_run [Recv \<lparr>Events = []\<rparr>, Recv \<lparr>Events = []\<rparr>] (ex_task, []) = (ex_task, []) \<and>
   task_run [Recv \<lparr>Events = []\<rparr>, Recv \<lparr>Events = []\<rparr>, Recv \<lparr>Events = [ex_delete, ex_put]\<rparr>,
             Recv \<lparr>Events = [ex_put]\<rparr>, Closed] (ex_task, []) =
     (ex_task\<lparr>w_state := Failed\<rparr>,
      [LogInfo ''monitor timed out, for monitors/entity1, handling failure'',
       HandleFailure ''e'' ''ev'', HandleError (OtherError ''alert failed'')]) \<and>
   task_run [Recv \<lparr>Events = []\<rparr>, Recv \<lparr>Events = []\<rparr>, Recv \<lparr>Events = [ex_put, ex_delete]\<rparr>,
             Recv \<lparr>Events = [ex_delete]\<rparr>, Closed] (ex_task, []) =
     (ex_task\<lparr>w_state := Superseded\<rparr>,
      [LogInfo ''shutting down monitor for %smonitors/entity1'']) \<and>
   task_run [Recv \<lparr>Events = []\<rparr>, Recv \<lparr>Events = []\<rparr>, Closed,
             Recv \<lparr>Events = [ex_delete]\<rparr>] (ex_task, []) =
     (ex_task\<lparr>w_state := Stopped\<rparr>, []) \<and>
   task_run ([Recv \<lparr>Events = [ex_delete]\<rparr>] @ [Recv \<lparr>Events = [ex_put]\<rparr>, Closed])
      (ex_task, []) =
     task_run [Recv \<lparr>Events = [ex_delete]\<rparr>] (ex_task, [])"
proof -
  have active: "w_state ex_task = Active"
    by (simp add: ex_task_def)
  have idle: "list_all eventless [Recv \<lparr>Events = []\<rparr>, Recv \<lparr>Events = []\<rparr>]"
    by simp
  have del: "ev_Type ex_delete = DELETE" and put: "ev_Type ex_put = PUT"
    by (simp_all add: ex_delete_def ex_put_def)
  have failure: "w_failure ex_task [] =
      [LogInfo ''monitor timed out, for monitors/entity1, handling failure'',
       HandleFailure ''e'' ''ev'', HandleError (OtherError ''alert failed'')]"
    by (simp add: ex_task_def failureFunc_def ex_service_def)
  have shutdown: "w_shutdown ex_task [] =
      [LogInfo ''shutting down monitor for %smonitors/entity1'']"
    by (simp add: ex_task_def shutdownFunc_def)
  have one: "task_run [Recv \<lparr>Events = []\<rparr>, Recv \<lparr>Events = []\<rparr>] (ex_task, []) =
      (ex_task, [])"
    using watcher_one_terminal_state [OF active idle, THEN conjunct2, THEN conjunct1] .
  have two: "task_run [Recv \<lparr>Events = []\<rparr>, Recv \<lparr>Events = []\<rparr>,
      Recv \<lparr>Events = [ex_delete, ex_put]\<rparr>, Recv \<lparr>Events = [ex_put]\<rparr>, Closed] (ex_task, []) =
      (ex_task\<lparr>w_state := Failed\<rparr>,
       [LogInfo ''monitor timed out, for monitors/entity1, handling failure'',
        HandleFailure ''e'' ''ev'', HandleError (OtherError ''alert failed'')])"
    using watcher_one_terminal_state [OF active idle,
        where ev = ex_delete and evs = "[ex_put]"
          and msgs = "[Recv \<lparr>Events = [ex_put]\<rparr>, Closed]" and log = "[]",
        THEN conjunct2, THEN conjunct2, THEN conjunct1] del failure
    by simp
  have three: "task_run [Recv \<lparr>Events = []\<rparr>, Recv \<lparr>Events = []\<rparr>,
      Recv \<lparr>Events = [ex_put, ex_delete]\<rparr>, Recv \<lparr>Events = [ex_delete]\<rparr>, Closed]
      (ex_task, []) =
      (ex_task\<lparr>w_state := Superseded\<rparr>,
       [LogInfo ''shutting down monitor for %smonitors/entity1''])"
    using watcher_one_terminal_state [OF active idle,
        where ev = ex_put and evs = "[ex_delete]"
          and msgs = "[Recv \<lparr>Events = [ex_delete]\<rparr>, Closed]" and log = "[]",
        THEN conjunct2, THEN conjunct2, THEN conjunct2, THEN conjunct1] put shutdown
    by simp
  have four: "task_run [Recv \<lparr>Events = []\<rparr>, Recv \<lparr>Events = []\<rparr>, Closed,
      Recv \<lparr>Events = [ex_delete]\<rparr>] (ex_task, []) = (ex_task\<lparr>w_state := Stopped\<rparr>, [])"
    using watcher_one_terminal_state [OF active idle,
        where msgs = "[Recv \<lparr>Events = [ex_delete]\<rparr>]" and log = "[]",
        THEN conjunct2, THEN conjunct2, THEN conjunct2, THEN conjunct2, THEN conjunct1]
    by simp
  have returned: "w_state (fst (task_run [Recv \<lparr>Events = [ex_delete]\<rparr>] (ex_task, []))) \<noteq>
      Active"
    by (simp add: task_step_def ex_task_def ex_delete_def)
  have five: "task_run ([Recv \<lparr>Events = [ex_delete]\<rparr>] @ [Recv \<lparr>Events = [ex_put]\<rparr>, Closed])
      (ex_task, []) = task_run [Recv \<lparr>Events = [ex_delete]\<rparr>] (ex_task, [])"
    using watcher_one_terminal_state [OF active idle,
        where msgs = "[Recv \<lparr>Events = [ex_delete]\<rparr>]" and log = "[]"
          and later = "[Recv \<lparr>Events = [ex_put]\<rparr>, Closed]",
        THEN conjunct2, THEN conjunct2, THEN conjunct2, THEN conjunct2, THEN conjunct2]
      returned
    by (simp del: task_run.simps append.simps)
  show ?thesis
    by (intro conjI one two three four five)
qed

text \<open>
  C4. A failing RPC ends the call with that very error, and so does a stored value that
  does not parse as an integer (the error of the read step). After the failing step no
  further RPC is issued; no watcher is started and no key is written.
\<close>

theorem refresh_errors_abort:
  "(get_err env = Some err \<longrightarrow>
      RefreshMonitor m env ctx name entity event t w =
        (Some err, w\<lparr>rpcs := rpcs w @ [RpcGet ctx (Build name)]\<rparr>)) \<and>
   (get_err env = None \<and> kvs w (Build name) = Some (v, l) \<and> ParseInt v = Inl err \<longrightarrow>
      RefreshMonitor m env ctx name entity event t w =
        (Some err, w\<lparr>rpcs := rpcs w @ [RpcGet ctx (Build name)]\<rparr>)) \<and>
   (get_err env = None \<and> kvs w (Build name) = Some (v, l) \<and> ParseInt v = Inr t \<and>
    keepalive_err env = Some err \<longrightarrow>
      RefreshMonitor m env ctx name entity event t w =
        (Some err,
         w\<lparr>rpcs := rpcs w @ [RpcGet ctx (Build name), RpcKeepAliveOnce ctx l]\<rparr>)) \<and>
   (get_err env = None \<and> must_create w (Build name) t \<and> grant_res env = Inl err \<longrightarrow>
      RefreshMonitor m env ctx name entity event t w =
        (Some err, w\<lparr>rpcs := rpcs w @ [RpcGet ctx (Build name), RpcGrant ctx t]\<rparr>)) \<and>
   (get_err env = None \<and> must_create w (Build name) t \<and> grant_res env = Inr lease \<and>
    put_err env = Some err \<longrightarrow>
      RefreshMonitor m env ctx name entity event t w =
        (Some err,
         w\<lparr>rpcs := rpcs w @
           [RpcGet ctx (Build name), RpcGrant ctx t,
            RpcPut ctx (Build name) (Sprintf_d t) lease]\<rparr>)) \<and>
   (fst (RefreshMonitor m env ctx name entity event t w) = Some err \<longrightarrow>
      watchers (snd (RefreshMonitor m env ctx name entity event t w)) = watchers w \<and>
      kvs (snd (RefreshMonitor m env ctx name entity event t w)) = kvs w)"
proof -
  have get: "get_err env = Some err \<longrightarrow>
      RefreshMonitor m env ctx name entity event t w =
        (Some err, w\<lparr>rpcs := rpcs w @ [RpcGet ctx (Build name)]\<rparr>)"
    by (simp add: refresh_get_fails)
  have parse: "get_err env = None \<and> kvs w (Build name) = Some (v, l) \<and> ParseInt v = Inl err \<longrightarrow>
      RefreshMonitor m env ctx name entity event t w =
        (Some err, w\<lparr>rpcs := rpcs w @ [RpcGet ctx (Build name)]\<rparr>)"
    by (simp add: refresh_malformed)
  have keepalive: "get_err env = None \<and> kvs w (Build name) = Some (v, l) \<and>
      ParseInt v = Inr t \<and> keepalive_err env = Some err \<longrightarrow>
        RefreshMonitor m env ctx name entity event t w =
          (Some err,
           w\<lparr>rpcs := rpcs w @ [RpcGet ctx (Build name), RpcKeepAliveOnce ctx l]\<rparr>)"
    by (simp add: refresh_renew)
  have grant: "get_err env = None \<and> must_create w (Build name) t \<and> grant_res env = Inl err \<longrightarrow>
      RefreshMonitor m env ctx name entity event t w =
        (Some err, w\<lparr>rpcs := rpcs w @ [RpcGet ctx (Build name), RpcGrant ctx t]\<rparr>)"
    by (simp add: refresh_grant_fails)
  have put: "get_err env = None \<and> must_create w (Build name) t \<and> grant_res env = Inr lease \<and>
      put_err env = Some err \<longrightarrow>
        RefreshMonitor m env ctx name entity event t w =
          (Some err,
           w\<lparr>rpcs := rpcs w @
             [RpcGet ctx (Build name), RpcGrant ctx t,
              RpcPut ctx (Build name) (Sprintf_d t) lease]\<rparr>)"
    by (simp add: refresh_put_fails)
  have frame: "fst (RefreshMonitor m env ctx name entity event t w) = Some err \<longrightarrow>
      watchers (snd (RefreshMonitor m env ctx name entity event t w)) = watchers w \<and>
      kvs (snd (RefreshMonitor m env ctx name entity event t w)) = kvs w"
    by (rule impI) (rule refresh_error_frame)
  show ?thesis
    by (intro conjI get parse keepalive grant put frame)
qed

theorem refresh_errors_abort_witness:
  "RefreshMonitor ex_service ex_no_get 3 ''entity1'' ''e'' ''ev'' 30 ex_stored =
     (Some (OtherError ''unavailable''),
      ex_stored\<lparr>rpcs := [RpcGet 3 ''monitors/entity1'']\<rparr>) \<and>
   RefreshMonitor ex_service ex_ok 3 ''entity1'' ''e'' ''ev'' 30 ex_malformed =
     (Some (NumError ''ParseInt'' ''3x'' ErrSyntax),
      ex_malformed\<lparr>rpcs := [RpcGet 3 ''monitors/entity1'']\<rparr>) \<and>
   RefreshMonitor ex_service ex_no_keepalive 3 ''entity1'' ''e'' ''ev'' 30 ex_stored =
     (Some (OtherError ''lease not found''),
      ex_stored\<lparr>rpcs := [RpcGet 3 ''monitors/entity1'', RpcKeepAliveOnce 3 7]\<rparr>) \<and>
   RefreshMonitor ex_service ex_no_grant 3 ''entity1'' ''e'' ''ev'' 30 ex_empty =
     (Some (OtherError ''unavailable''),
      ex_empty\<lparr>rpcs := [RpcGet 3 ''monitors/entity1'', RpcGrant 3 30]\<rparr>) \<and>
   RefreshMonitor ex_service ex_no_put 3 ''entity1'' ''e'' ''ev'' 30 ex_empty =
     (Some (OtherError ''unavailable''),
      ex_empty\<lparr>rpcs := [RpcGet 3 ''monitors/entity1'', RpcGrant 3 30,
                         RpcPut 3 ''monitors/entity1'' ''30'' 7]\<rparr>) \<and>
   watchers (snd (RefreshMonitor ex_service ex_no_put 3 ''entity1'' ''e'' ''ev'' 30 ex_empty)) = []"
proof -
  note abort = refresh_errors_abort [where m = ex_service and ctx = 3 and name = "''entity1''"
      and entity = "''e''" and event = "''ev''" and t = 30]
  have stored: "kvs ex_stored (Build ''entity1'') = Some (''30'', 7)"
    by (simp add: ex_stored_def ex_key)
  have malformed: "kvs ex_malformed (Build ''entity1'') = Some (''3x'', 7)"
    by (simp add: ex_malformed_def ex_key)
  have rpcs0: "rpcs ex_stored = []" "rpcs ex_malformed = []" "rpcs ex_empty = []"
    "watchers ex_empty = []"
    by (simp_all add: ex_stored_def ex_malformed_def ex_empty_def)
  have one: "RefreshMonitor ex_service ex_no_get 3 ''entity1'' ''e'' ''ev'' 30 ex_stored =
     (Some (OtherError ''unavailable''), ex_stored\<lparr>rpcs := [RpcGet 3 ''monitors/entity1'']\<rparr>)"
    using abort [where env = ex_no_get and w = ex_stored and err = "OtherError ''unavailable''",
        THEN conjunct1] rpcs0
    by (simp add: ex_no_get_def ex_ok_def ex_key)
  have two: "RefreshMonitor ex_service ex_ok 3 ''entity1'' ''e'' ''ev'' 30 ex_malformed =
     (Some (NumError ''ParseInt'' ''3x'' ErrSyntax),
      ex_malformed\<lparr>rpcs := [RpcGet 3 ''monitors/entity1'']\<rparr>)"
    using abort [where env = ex_ok and w = ex_malformed and v = "''3x''" and l = 7
        and err = "NumError ''ParseInt'' ''3x'' ErrSyntax", THEN conjunct2, THEN conjunct1]
      malformed ex_parse_3x rpcs0
    by (simp add: ex_ok_def ex_key)
  have three: "RefreshMonitor ex_service ex_no_keepalive 3 ''entity1'' ''e'' ''ev'' 30 ex_stored =
     (Some (OtherError ''lease not found''),
      ex_stored\<lparr>rpcs := [RpcGet 3 ''monitors/entity1'', RpcKeepAliveOnce 3 7]\<rparr>)"
    using abort [where env = ex_no_keepalive and w = ex_stored and v = "''30''" and l = 7
        and err = "OtherError ''lease not found''",
        THEN conjunct2, THEN conjunct2, THEN conjunct1]
      stored ex_parse_30 rpcs0
    by (simp add: ex_no_keepalive_def ex_ok_def ex_key)
  have four: "RefreshMonitor ex_service ex_no_grant 3 ''entity1'' ''e'' ''ev'' 30 ex_empty =
     (Some (OtherError ''unavailable''),
      ex_empty\<lparr>rpcs := [RpcGet 3 ''monitors/entity1'', RpcGrant 3 30]\<rparr>)"
    using abort [where env = ex_no_grant and w = ex_empty and err = "OtherError ''unavailable''",
        THEN conjunct2, THEN conjunct2, THEN conjunct2, THEN conjunct1]
      ex_empty_must_create [of "''entity1''" 30] rpcs0
    by (simp add: ex_no_grant_def ex_ok_def ex_key)
  have five: "RefreshMonitor ex_service ex_no_put 3 ''entity1'' ''e'' ''ev'' 30 ex_empty =
     (Some (OtherError ''unavailable''),
      ex_empty\<lparr>rpcs := [RpcGet 3 ''monitors/entity1'', RpcGrant 3 30,
                         RpcPut 3 ''monitors/entity1'' ''30'' 7]\<rparr>)"
    using abort [where env = ex_no_put and w = ex_empty and err = "OtherError ''unavailable''"
        and lease = 7,
        THEN conjunct2, THEN conjunct2, THEN conjunct2, THEN conjunct2, THEN conjunct1]
      ex_empty_must_create [of "''entity1''" 30] rpcs0
    by (simp add: ex_no_put_def ex_ok_def ex_key ex_print_30)
  have six: "watchers (snd (RefreshMonitor ex_service ex_no_put 3 ''entity1'' ''e'' ''ev'' 30
      ex_empty)) = []"
    using abort [where env = ex_no_put and w = ex_empty and err = "OtherError ''unavailable''",
        THEN conjunct2, THEN conjunct2, THEN conjunct2, THEN conjunct2, THEN conjunct2]
      five rpcs0
    by simp
  show ?thesis
    by (intro conjI one two three four five six)
qed

text \<open>
  C5. The failure callback calls the failure handler with the entity and the event that
  were passed to the call that created the lease. If the handler answers an error, the
  error handler is called once, with that error; if it answers \<open>nil\<close>, the error
  handler is not called. The callback has no result, and the goroutine ends as
  \<open>Failed\<close> in either case: no error leaves it.
\<close>

theorem failure_callback_isolated:
  "failureFunc m k entity event log =
     log @ [LogInfo (''monitor timed out, for '' @ k @ '', handling failure''),
            HandleFailure entity event] @
       (case failureHandler m entity event of Some e \<Rightarrow> [HandleError e] | None \<Rightarrow> []) \<and>
   (get_err env = None \<and> must_create w (Build name) t \<and> grant_res env = Inr lease \<and>
    put_err env = None \<longrightarrow>
      w_failure (last (watchers (snd (RefreshMonitor m env ctx name entity event t w)))) =
        failureFunc m (Build name) entity event) \<and>
   (w_state tk = Active \<and> w_failure tk = failureFunc m k entity event \<and>
    ev_Type ev = DELETE \<longrightarrow>
      task_step (Recv \<lparr>Events = ev # evs\<rparr>) (tk, log) =
        (tk\<lparr>w_state := Failed\<rparr>, failureFunc m k entity event log))"
proof -
  have callback: "failureFunc m k entity event log =
     log @ [LogInfo (''monitor timed out, for '' @ k @ '', handling failure''),
            HandleFailure entity event] @
       (case failureHandler m entity event of Some e \<Rightarrow> [HandleError e] | None \<Rightarrow> [])"
    by (simp add: failureFunc_def Let_def split: option.splits)
  have captured: "get_err env = None \<and> must_create w (Build name) t \<and>
    grant_res env = Inr lease \<and> put_err env = None \<longrightarrow>
      w_failure (last (watchers (snd (RefreshMonitor m env ctx name entity event t w)))) =
        failureFunc m (Build name) entity event"
    by (simp add: refresh_create)
  have ends: "w_state tk = Active \<and> w_failure tk = failureFunc m k entity event \<and>
    ev_Type ev = DELETE \<longrightarrow>
      task_step (Recv \<lparr>Events = ev # evs\<rparr>) (tk, log) =
        (tk\<lparr>w_state := Failed\<rparr>, failureFunc m k entity event log)"
    by (auto simp: task_step_delete)
  show ?thesis
    by (intro conjI callback captured ends)
qed

theorem failure_callback_isolated_witness:
  "failureFunc ex_service ''monitors/entity1'' ''e'' ''ev'' [] =
     [LogInfo ''monitor timed out, for monitors/entity1, handling failure'',
      HandleFailure ''e'' ''ev'', HandleError (OtherError ''alert failed'')] \<and>
   failureFunc ex_quiet ''monitors/entity1'' ''e'' ''ev'' [] =
     [LogInfo ''monitor timed out, for monitors/entity1, handling failure'',
      HandleFailure ''e'' ''ev''] \<and>
   w_failure (last (watchers (snd (RefreshMonitor ex_service ex_ok 3 ''entity1'' ''e'' ''ev'' 30
      ex_empty)))) = failureFunc ex_service ''monitors/entity1'' ''e'' ''ev'' \<and>
   task_step (Recv \<lparr>Events = [ex_delete]\<rparr>) (ex_task, []) =
     (ex_task\<lparr>w_state := Failed\<rparr>,
      [LogInfo ''monitor timed out, for monitors/entity1, handling failure'',
       HandleFailure ''e'' ''ev'', HandleError (OtherError ''alert failed'')])"
proof -
  have loud: "failureFunc ex_service ''monitors/entity1'' ''e'' ''ev'' [] =
     [LogInfo ''monitor timed out, for monitors/entity1, handling failure'',
      HandleFailure ''e'' ''ev'', HandleError (OtherError ''alert failed'')]"
    using failure_callback_isolated [where m = ex_service and k = "''monitors/entity1''"
        and entity = "''e''" and event = "''ev''" and log = "[]", THEN conjunct1]
    by (simp add: ex_service_def)
  have quiet: "failureFunc ex_quiet ''monitors/entity1'' ''e'' ''ev'' [] =
     [LogInfo ''monitor timed out, for monitors/entity1, handling failure'',
      HandleFailure ''e'' ''ev'']"
    using failure_callback_isolated [where m = ex_quiet and k = "''monitors/entity1''"
        and entity = "''e''" and event = "''ev''" and log = "[]", THEN conjunct1]
    by (simp add: ex_quiet_def)
  have captured: "w_failure (last (watchers (snd (RefreshMonitor ex_service ex_ok 3 ''entity1''
      ''e'' ''ev'' 30 ex_empty)))) = failureFunc ex_service ''monitors/entity1'' ''e'' ''ev''"
    using failure_callback_isolated [where m = ex_service and env = ex_ok and w = ex_empty
        and name = "''entity1''" and t = 30 and lease = 7 and ctx = 3
        and entity = "''e''" and event = "''ev''", THEN conjunct2, THEN conjunct1]
      ex_empty_must_create [of "''entity1''" 30]
    by (simp add: ex_ok_def ex_key)
  have ends: "task_step (Recv \<lparr>Events = [ex_delete]\<rparr>) (ex_task, []) =
     (ex_task\<lparr>w_state := Failed\<rparr>,
      failureFunc ex_service ''monitors/entity1'' ''e'' ''ev'' [])"
    using failure_callback_isolated [where m = ex_service and k = "''monitors/entity1''"
        and entity = "''e''" and event = "''ev''" and log = "[]" and tk = ex_task
        and ev = ex_delete and evs = "[]", THEN conjunct2, THEN conjunct2]
    by (simp add: ex_task_def ex_delete_def)
  show ?thesis
    using loud quiet captured ends by simp
qed

text \<open>
  C6, as stated, says that the watch is bound to a token that outlives the context of
  the call, so that the goroutine survives the cancellation of that context. The
  source passes the context of the call itself to \<open>watchMon\<close>: in the scenario the
  watcher carries context 3, the context of the call, and cancelling context 3 stops it.
\<close>

theorem watch_context_counterexample:
  "w_ctx (last (watchers (snd (RefreshMonitor ex_service ex_ok 3 ''entity1'' ''e'' ''ev'' 30
      ex_empty)))) = 3 \<and>
   w_state (last (watchers (snd (RefreshMonitor ex_service ex_ok 3 ''entity1'' ''e'' ''ev'' 30
      ex_empty)))) = Active \<and>
   w_state (last (watchers (cancel 3 (snd (RefreshMonitor ex_service ex_ok 3 ''entity1'' ''e''
      ''ev'' 30 ex_empty))))) \<noteq> Active"
proof -
  have "get_err ex_ok = None" "grant_res ex_ok = Inr 7" "put_err ex_ok = None"
    by (simp_all add: ex_ok_def)
  then show ?thesis
    by (simp add: refresh_create [OF _ ex_empty_must_create] cancel_def task_step_closed)
qed

text \<open>
  C6, amended. The watch of the watcher that \<open>RefreshMonitor\<close> starts is bound to the
  context that was passed to that call. When that context is cancelled while the
  goroutine is \<open>Active\<close>, the channel is closed and the goroutine ends as \<open>Stopped\<close>:
  the effects are as before, so neither callback was called, and nothing delivered
  later changes that.
\<close>

theorem watch_bound_to_call_context:
  assumes "get_err env = None" and "must_create w (Build name) t"
    and "grant_res env = Inr lease" and "put_err env = None"
  shows "w_ctx (last (watchers (snd (RefreshMonitor m env ctx name entity event t w)))) = ctx \<and>
         last (watchers (cancel ctx (snd (RefreshMonitor m env ctx name entity event t w)))) =
           (last (watchers (snd (RefreshMonitor m env ctx name entity event t w))))
             \<lparr>w_state := Stopped\<rparr> \<and>
         (w_state tk = Active \<longrightarrow>
            task_run (Closed # msgs) (tk, log) = (tk\<lparr>w_state := Stopped\<rparr>, log))"
  using assms
  by (simp add: refresh_create cancel_def task_step_closed task_run_returned)

theorem watch_bound_to_call_context_witness:
  "w_ctx (last (watchers (snd (RefreshMonitor ex_service ex_ok 3 ''entity1'' ''e'' ''ev'' 30
      ex_empty)))) = 3 \<and>
   last (watchers (cancel 3 (snd (RefreshMonitor ex_service ex_ok 3 ''entity1'' ''e'' ''ev'' 30
      ex_empty)))) = ex_task\<lparr>w_state := Stopped\<rparr> \<and>
   task_run [Closed, Recv \<lparr>Events = [ex_delete]\<rparr>] (ex_task, []) =
     (ex_task\<lparr>w_state := Stopped\<rparr>, [])"
proof -
  have ok: "get_err ex_ok = None" "grant_res ex_ok = Inr 7" "put_err ex_ok = None"
    by (simp_all add: ex_ok_def)
  have started: "last (watchers (snd (RefreshMonitor ex_service ex_ok 3 ''entity1'' ''e'' ''ev''
      30 ex_empty))) = ex_task"
    using ok by (simp add: refresh_create [OF _ ex_empty_must_create] ex_task_def ex_key)
  have active: "w_state ex_task = Active"
    by (simp add: ex_task_def)
  show ?thesis
    using watch_bound_to_call_context [OF ok(1) ex_empty_must_create ok(2) ok(3),
        where m = ex_service and ctx = 3 and name = "''entity1''" and entity = "''e''"
          and event = "''ev''" and t = 30 and tk = ex_task
          and msgs = "[Recv \<lparr>Events = [ex_delete]\<rparr>]" and log = "[]"]
      started active
    by simp
qed

text \<open>
  C7. The key is the namespace \<open>monitors\<close>, the separator and the name, concatenated.
  Every RPC of a call that names a key names that key, beginning with the read; no other
  key of the store changes. On a store without the key \<open>monitors/entity1\<close> where every
  RPC succeeds, the call for \<open>entity1\<close> with TTL 30 leaves that key with value \<open>30\<close>.
\<close>

theorem key_is_namespace_and_name:
  "Build name = ''monitors'' @ ''/'' @ name \<and>
   (\<exists>rest. rpcs (snd (RefreshMonitor m env ctx name entity event t w)) =
             rpcs w @ RpcGet ctx (''monitors/'' @ name) # rest \<and>
           (\<forall>r \<in> set rest. rpc_key r = None \<or> rpc_key r = Some (''monitors/'' @ name))) \<and>
   (\<forall>k. k \<noteq> ''monitors/'' @ name \<longrightarrow>
        kvs (snd (RefreshMonitor m env ctx name entity event t w)) k = kvs w k) \<and>
   (get_err env = None \<and> kvs w ''monitors/entity1'' = None \<and> grant_res env = Inr lease \<and>
    put_err env = None \<longrightarrow>
      kvs (snd (RefreshMonitor m env ctx ''entity1'' entity event 30 w)) ''monitors/entity1'' =
        Some (''30'', lease))"
proof -
  have key: "Build name = ''monitors/'' @ name"
    by (simp add: Build_def monitorPathPrefix_def)
  have named: "\<exists>rest. rpcs (snd (RefreshMonitor m env ctx name entity event t w)) =
             rpcs w @ RpcGet ctx (''monitors/'' @ name) # rest \<and>
           (\<forall>r \<in> set rest. rpc_key r = None \<or> rpc_key r = Some (''monitors/'' @ name))"
    using refresh_trace [of m env ctx name entity event t w] unfolding key by blast
  have others: "\<forall>k. k \<noteq> ''monitors/'' @ name \<longrightarrow>
        kvs (snd (RefreshMonitor m env ctx name entity event t w)) k = kvs w k"
    using refresh_kvs_elsewhere [of _ name m env ctx entity event t w] unfolding key by blast
  have scenario: "get_err env = None \<and> kvs w ''monitors/entity1'' = None \<and>
    grant_res env = Inr lease \<and> put_err env = None \<longrightarrow>
      kvs (snd (RefreshMonitor m env ctx ''entity1'' entity event 30 w)) ''monitors/entity1'' =
        Some (''30'', lease)"
    by (simp add: refresh_create must_create_def ex_key ex_print_30)
  from key have "Build name = ''monitors'' @ ''/'' @ name"
    by simp
  then show ?thesis
    by (intro conjI named others scenario)
qed

theorem key_is_namespace_and_name_witness:
  "Build ''entity1'' = ''monitors/entity1'' \<and>
   kvs (snd (RefreshMonitor ex_service ex_ok 3 ''entity1'' ''e'' ''ev'' 30 ex_empty))
     ''monitors/entity1'' = Some (''30'', 7) \<and>
   kvs (snd (RefreshMonitor ex_service ex_ok 3 ''entity1'' ''e'' ''ev'' 30 ex_empty))
     ''monitors/entity2'' = None"
proof -
  note key = key_is_namespace_and_name [where m = ex_service and env = ex_ok and ctx = 3
      and entity = "''e''" and event = "''ev''" and t = 30 and w = ex_empty and lease = 7
      and name = "''entity1''"]
  have one: "Build ''entity1'' = ''monitors/entity1''"
    using key [THEN conjunct1] by simp
  have two: "kvs (snd (RefreshMonitor ex_service ex_ok 3 ''entity1'' ''e'' ''ev'' 30 ex_empty))
     ''monitors/entity1'' = Some (''30'', 7)"
    using key [THEN conjunct2, THEN conjunct2, THEN conjunct2]
    by (simp add: ex_ok_def ex_empty_def)
  have "kvs (snd (RefreshMonitor ex_service ex_ok 3 ''entity1'' ''e'' ''ev'' 30 ex_empty))
     ''monitors/entity2'' = kvs ex_empty ''monitors/entity2''"
    using key [THEN conjunct2, THEN conjunct2, THEN conjunct1] by simp
  then have three: "kvs (snd (RefreshMonitor ex_service ex_ok 3 ''entity1'' ''e'' ''ev'' 30
      ex_empty)) ''monitors/entity2'' = None"
    by (simp add: ex_empty_def)
  show ?thesis
    by (intro conjI one two three)
qed

text \<open>
  C9. When the put that follows a grant fails, the call returns the error of the put;
  its trace ends with that put, so the granted lease is not revoked, and no watcher is
  started. When a changed TTL makes the call create a new lease, the trace is the read,
  the grant, the put and the watch: nothing is issued against the old lease. On every
  path, the revokes and deletes in the trace after the call are those that were there
  before it.
\<close>

theorem refresh_never_revokes:
  "(get_err env = None \<and> must_create w (Build name) t \<and> grant_res env = Inr lease \<and>
    put_err env = Some err \<longrightarrow>
      RefreshMonitor m env ctx name entity event t w =
        (Some err,
         w\<lparr>rpcs := rpcs w @
           [RpcGet ctx (Build name), RpcGrant ctx t,
            RpcPut ctx (Build name) (Sprintf_d t) lease]\<rparr>)) \<and>
   (get_err env = None \<and> kvs w (Build name) = Some (v, l) \<and> ParseInt v = Inr t' \<and>
    t' \<noteq> t \<and> grant_res env = Inr lease \<and> put_err env = None \<longrightarrow>
      rpcs (snd (RefreshMonitor m env ctx name entity event t w)) =
        rpcs w @
          [RpcGet ctx (Build name), RpcGrant ctx t,
           RpcPut ctx (Build name) (Sprintf_d t) lease, RpcWatch ctx (Build name)]) \<and>
   filter removes (rpcs (snd (RefreshMonitor m env ctx name entity event t w))) =
     filter removes (rpcs w)"
proof -
  have put: "get_err env = None \<and> must_create w (Build name) t \<and> grant_res env = Inr lease \<and>
    put_err env = Some err \<longrightarrow>
      RefreshMonitor m env ctx name entity event t w =
        (Some err,
         w\<lparr>rpcs := rpcs w @
           [RpcGet ctx (Build name), RpcGrant ctx t,
            RpcPut ctx (Build name) (Sprintf_d t) lease]\<rparr>)"
    by (simp add: refresh_put_fails)
  have "kvs w (Build name) = Some (v, l) \<and> ParseInt v = Inr t' \<and> t' \<noteq> t \<longrightarrow>
      must_create w (Build name) t"
    by (simp add: must_create_def)
  then have changed: "get_err env = None \<and> kvs w (Build name) = Some (v, l) \<and>
    ParseInt v = Inr t' \<and> t' \<noteq> t \<and> grant_res env = Inr lease \<and> put_err env = None \<longrightarrow>
      rpcs (snd (RefreshMonitor m env ctx name entity event t w)) =
        rpcs w @
          [RpcGet ctx (Build name), RpcGrant ctx t,
           RpcPut ctx (Build name) (Sprintf_d t) lease, RpcWatch ctx (Build name)]"
    by (auto simp: refresh_create)
  obtain rest where
    "rpcs (snd (RefreshMonitor m env ctx name entity event t w)) =
       rpcs w @ RpcGet ctx (Build name) # rest"
    and "\<forall>r \<in> set rest. \<not> removes r"
    using refresh_trace [of m env ctx name entity event t w] by blast
  then have none: "filter removes (rpcs (snd (RefreshMonitor m env ctx name entity event t w))) =
     filter removes (rpcs w)"
    by simp
  show ?thesis
    by (intro conjI put changed none)
qed

theorem refresh_never_revokes_witness:
  "RefreshMonitor ex_service ex_no_put 3 ''entity1'' ''e'' ''ev'' 30 ex_empty =
     (Some (OtherError ''unavailable''),
      ex_empty\<lparr>rpcs := [RpcGet 3 ''monitors/entity1'', RpcGrant 3 30,
                         RpcPut 3 ''monitors/entity1'' ''30'' 7]\<rparr>) \<and>
   rpcs (snd (RefreshMonitor ex_service ex_ok 4 ''entity1'' ''e'' ''ev'' 31 ex_stored)) =
     [RpcGet 4 ''monitors/entity1'', RpcGrant 4 31,
      RpcPut 4 ''monitors/entity1'' ''31'' 7, RpcWatch 4 ''monitors/entity1''] \<and>
   filter removes (rpcs (snd (RefreshMonitor ex_service ex_ok 4 ''entity1'' ''e'' ''ev'' 31
      ex_stored))) = []"
proof -
  have rpcs0: "rpcs ex_empty = []" "rpcs ex_stored = []"
    by (simp_all add: ex_empty_def ex_stored_def)
  have stored: "kvs ex_stored (Build ''entity1'') = Some (''30'', 7)"
    by (simp add: ex_stored_def ex_key)
  have one: "RefreshMonitor ex_service ex_no_put 3 ''entity1'' ''e'' ''ev'' 30 ex_empty =
     (Some (OtherError ''unavailable''),
      ex_empty\<lparr>rpcs := [RpcGet 3 ''monitors/entity1'', RpcGrant 3 30,
                         RpcPut 3 ''monitors/entity1'' ''30'' 7]\<rparr>)"
    using refresh_never_revokes [where m = ex_service and env = ex_no_put and ctx = 3
        and name = "''entity1''" and entity = "''e''" and event = "''ev''" and t = 30
        and w = ex_empty and lease = 7 and err = "OtherError ''unavailable''", THEN conjunct1]
      ex_empty_must_create [of "''entity1''" 30] rpcs0
    by (simp add: ex_no_put_def ex_ok_def ex_key ex_print_30)
  note changed = refresh_never_revokes [where m = ex_service and env = ex_ok and ctx = 4
      and name = "''entity1''" and entity = "''e''" and event = "''ev''" and t = 31
      and w = ex_stored and lease = 7 and v = "''30''" and l = 7 and t' = 30]
  have two: "rpcs (snd (RefreshMonitor ex_service ex_ok 4 ''entity1'' ''e'' ''ev'' 31 ex_stored)) =
     [RpcGet 4 ''monitors/entity1'', RpcGrant 4 31,
      RpcPut 4 ''monitors/entity1'' ''31'' 7, RpcWatch 4 ''monitors/entity1'']"
    using changed [THEN conjunct2, THEN conjunct1] stored ex_parse_30 rpcs0
    by (simp add: ex_ok_def ex_key ex_print_31)
  have three: "filter removes (rpcs (snd (RefreshMonitor ex_service ex_ok 4 ''entity1'' ''e''
      ''ev'' 31 ex_stored))) = []"
    using changed [THEN conjunct2, THEN conjunct2] rpcs0 by simp
  show ?thesis
    by (intro conjI one two three)
qed

text \<open>
  C10. \<open>RefreshMonitor\<close> checks neither the name nor the TTL. For every name and every
  TTL the first thing it does is the read of the key; an error it returns is one that
  an RPC returned or that parsing the stored value gave. On a store without the key
  the TTL goes to the grant and into the value as it is, also when it is zero or
  negative; against a stored TTL it is compared as it is: equal renews, different
  grants a lease for the requested TTL.
\<close>

theorem refresh_validates_nothing:
  "(\<exists>rest. rpcs (snd (RefreshMonitor m env ctx name entity event t w)) =
             rpcs w @ RpcGet ctx (Build name) # rest) \<and>
   (fst (RefreshMonitor m env ctx name entity event t w) = Some err \<longrightarrow>
      get_err env = Some err \<or> keepalive_err env = Some err \<or> grant_res env = Inl err \<or>
      put_err env = Some err \<or>
      (\<exists>v l. kvs w (Build name) = Some (v, l) \<and> ParseInt v = Inl err)) \<and>
   (get_err env = None \<and> kvs w (Build name) = None \<and> grant_res env = Inr lease \<and>
    put_err env = None \<longrightarrow>
      fst (RefreshMonitor m env ctx name entity event t w) = None \<and>
      rpcs (snd (RefreshMonitor m env ctx name entity event t w)) =
        rpcs w @
          [RpcGet ctx (Build name), RpcGrant ctx t,
           RpcPut ctx (Build name) (Sprintf_d t) lease, RpcWatch ctx (Build name)]) \<and>
   (get_err env = None \<and> kvs w (Build name) = Some (v', l') \<and> ParseInt v' = Inr t' \<longrightarrow>
      (if t' = t
       then RefreshMonitor m env ctx name entity event t w =
              (keepalive_err env,
               w\<lparr>rpcs := rpcs w @ [RpcGet ctx (Build name), RpcKeepAliveOnce ctx l']\<rparr>)
       else \<exists>rest. rpcs (snd (RefreshMonitor m env ctx name entity event t w)) =
              rpcs w @ [RpcGet ctx (Build name), RpcGrant ctx t] @ rest))"
proof -
  have first: "\<exists>rest. rpcs (snd (RefreshMonitor m env ctx name entity event t w)) =
             rpcs w @ RpcGet ctx (Build name) # rest"
    using refresh_trace [of m env ctx name entity event t w] by blast
  have origin: "fst (RefreshMonitor m env ctx name entity event t w) = Some err \<longrightarrow>
      get_err env = Some err \<or> keepalive_err env = Some err \<or> grant_res env = Inl err \<or>
      put_err env = Some err \<or>
      (\<exists>v l. kvs w (Build name) = Some (v, l) \<and> ParseInt v = Inl err)"
    by (rule impI) (rule refresh_error_origin)
  have absent: "get_err env = None \<and> kvs w (Build name) = None \<and> grant_res env = Inr lease \<and>
    put_err env = None \<longrightarrow>
      fst (RefreshMonitor m env ctx name entity event t w) = None \<and>
      rpcs (snd (RefreshMonitor m env ctx name entity event t w)) =
        rpcs w @
          [RpcGet ctx (Build name), RpcGrant ctx t,
           RpcPut ctx (Build name) (Sprintf_d t) lease, RpcWatch ctx (Build name)]"
    by (simp add: refresh_create must_create_def)
  have compared: "get_err env = None \<and> kvs w (Build name) = Some (v', l') \<and>
    ParseInt v' = Inr t' \<longrightarrow>
      (if t' = t
       then RefreshMonitor m env ctx name entity event t w =
              (keepalive_err env,
               w\<lparr>rpcs := rpcs w @ [RpcGet ctx (Build name), RpcKeepAliveOnce ctx l']\<rparr>)
       else \<exists>rest. rpcs (snd (RefreshMonitor m env ctx name entity event t w)) =
              rpcs w @ [RpcGet ctx (Build name), RpcGrant ctx t] @ rest)"
  proof (intro impI, elim conjE)
    assume read_ok: "get_err env = None" and stored: "kvs w (Build name) = Some (v', l')"
      and parsed: "ParseInt v' = Inr t'"
    show "if t' = t
       then RefreshMonitor m env ctx name entity event t w =
              (keepalive_err env,
               w\<lparr>rpcs := rpcs w @ [RpcGet ctx (Build name), RpcKeepAliveOnce ctx l']\<rparr>)
       else \<exists>rest. rpcs (snd (RefreshMonitor m env ctx name entity event t w)) =
              rpcs w @ [RpcGet ctx (Build name), RpcGrant ctx t] @ rest"
    proof (cases "t' = t")
      case True
      with read_ok stored parsed show ?thesis
        by (simp add: refresh_renew)
    next
      case False
      with stored parsed have create: "must_create w (Build name) t"
        by (simp add: must_create_def)
      have "\<exists>rest. rpcs (snd (RefreshMonitor m env ctx name entity event t w)) =
              rpcs w @ [RpcGet ctx (Build name), RpcGrant ctx t] @ rest"
      proof (cases "grant_res env")
        case (Inl e)
        with read_ok create show ?thesis
          by (simp add: refresh_grant_fails)
      next
        case (Inr lease')
        with read_ok create show ?thesis
          by (cases "put_err env") (simp_all add: refresh_create refresh_put_fails)
      qed
      with False show ?thesis
        by simp
    qed
  qed
  show ?thesis
    by (intro conjI first origin absent compared)
qed

theorem refresh_validates_nothing_witness:
  "fst (RefreshMonitor ex_service ex_ok 3 [] ''e'' ''ev'' (- 5) ex_empty) = None \<and>
   rpcs (snd (RefreshMonitor ex_service ex_ok 3 [] ''e'' ''ev'' (- 5) ex_empty)) =
     [RpcGet 3 ''monitors/'', RpcGrant 3 (- 5), RpcPut 3 ''monitors/'' ''-5'' 7,
      RpcWatch 3 ''monitors/''] \<and>
   fst (RefreshMonitor ex_service ex_ok 3 [] ''e'' ''ev'' 0 ex_empty) = None \<and>
   rpcs (snd (RefreshMonitor ex_service ex_ok 3 [] ''e'' ''ev'' 0 ex_empty)) =
     [RpcGet 3 ''monitors/'', RpcGrant 3 0, RpcPut 3 ''monitors/'' ''0'' 7,
      RpcWatch 3 ''monitors/''] \<and>
   rpcs (snd (RefreshMonitor ex_service ex_ok 3 ''entity1'' ''e'' ''ev'' (- 5) ex_stored)) =
     [RpcGet 3 ''monitors/entity1'', RpcGrant 3 (- 5),
      RpcPut 3 ''monitors/entity1'' ''-5'' 7, RpcWatch 3 ''monitors/entity1'']"
proof -
  have rpcs0: "rpcs ex_empty = []" "kvs ex_empty (Build []) = None"
    by (simp_all add: ex_empty_def)
  have key: "Build [] = ''monitors/''"
    by (simp add: Build_def monitorPathPrefix_def)
  have printed: "Sprintf_d (- 5) = ''-5''" "Sprintf_d 0 = ''0''"
    by (simp_all add: strconv_defs)
  have neg: "fst (RefreshMonitor ex_service ex_ok 3 [] ''e'' ''ev'' (- 5) ex_empty) = None \<and>
   rpcs (snd (RefreshMonitor ex_service ex_ok 3 [] ''e'' ''ev'' (- 5) ex_empty)) =
     [RpcGet 3 ''monitors/'', RpcGrant 3 (- 5), RpcPut 3 ''monitors/'' ''-5'' 7,
      RpcWatch 3 ''monitors/'']"
    using refresh_validates_nothing [where m = ex_service and env = ex_ok and ctx = 3
        and name = "[]" and entity = "''e''" and event = "''ev''" and t = "- 5"
        and w = ex_empty and lease = 7, THEN conjunct2, THEN conjunct2, THEN conjunct1]
      rpcs0
    by (simp add: ex_ok_def key printed)
  have zero: "fst (RefreshMonitor ex_service ex_ok 3 [] ''e'' ''ev'' 0 ex_empty) = None \<and>
   rpcs (snd (RefreshMonitor ex_service ex_ok 3 [] ''e'' ''ev'' 0 ex_empty)) =
     [RpcGet 3 ''monitors/'', RpcGrant 3 0, RpcPut 3 ''monitors/'' ''0'' 7,
      RpcWatch 3 ''monitors/'']"
    using refresh_validates_nothing [where m = ex_service and env = ex_ok and ctx = 3
        and name = "[]" and entity = "''e''" and event = "''ev''" and t = 0
        and w = ex_empty and lease = 7, THEN conjunct2, THEN conjunct2, THEN conjunct1]
      rpcs0
    by (simp add: ex_ok_def key printed)
  have "\<exists>rest. rpcs (snd (RefreshMonitor ex_service ex_ok 3 ''entity1'' ''e'' ''ev'' (- 5)
      ex_stored)) = [RpcGet 3 ''monitors/entity1'', RpcGrant 3 (- 5)] @ rest"
    using refresh_validates_nothing [where m = ex_service and env = ex_ok and ctx = 3
        and name = "''entity1''" and entity = "''e''" and event = "''ev''" and t = "- 5"
        and w = ex_stored and v' = "''30''" and l' = 7 and t' = 30,
        THEN conjunct2, THEN conjunct2, THEN conjunct2]
      ex_parse_30
    by (simp add: ex_ok_def ex_stored_def ex_key)
  moreover have "must_create ex_stored (Build ''entity1'') (- 5)"
    by (simp add: must_create_def ex_stored_def ex_key ex_parse_30)
  then have "rpcs (snd (RefreshMonitor ex_service ex_ok 3 ''entity1'' ''e'' ''ev'' (- 5)
      ex_stored)) = [RpcGet 3 ''monitors/entity1'', RpcGrant 3 (- 5),
      RpcPut 3 ''monitors/entity1'' ''-5'' 7, RpcWatch 3 ''monitors/entity1'']"
    by (simp add: refresh_create [where lease = 7] ex_ok_def ex_stored_def ex_key printed)
  ultimately show ?thesis
    using neg zero by simp
qed

end
